theory Spec2Isabelle
  imports Main "HOL-Library.List_Lexorder" "HOL-Library.Char_ord" "HOL-Library.Sublist"
begin

section \<open>Python values and errors\<close>

text \<open>
  Strings are byte strings (\<open>char list\<close>). The exceptions the modelled code raises or
  lets through are values of \<open>py_error\<close>; a function that may raise returns
  \<open>py_error + 'a\<close> with \<open>Inl\<close> for the exception. \<open>BackendError\<close> stands for what a
  call of the model backend may raise.
\<close>

datatype py_error =
    ValueError
  | JSONDecodeError
  | FileNotFoundError
  | CalledProcessError
  | KeyError
  | UnicodeError
  | OSError
  | BackendError

section \<open>The severity scale (utils/llmanalyze.py)\<close>

text \<open>
  \<^verbatim>\<open>LEVELS = ["NONE", "LOW", "MEDIUM", "HIGH", "CRITICAL"]\<close>
\<close>

definition LEVELS :: "string list" where
  "LEVELS = [''NONE'', ''LOW'', ''MEDIUM'', ''HIGH'', ''CRITICAL'']"

text \<open>
  \<open>str.upper()\<close> on byte strings: the letters \<open>a\<close> to \<open>z\<close> (codes 97 to 122) move to
  \<open>A\<close> to \<open>Z\<close>, every other byte stays. Python's case mapping of letters beyond
  ASCII is not part of this model.
\<close>

definition upper_char :: "char \<Rightarrow> char" where
  "upper_char c =
     (if 97 \<le> (of_char c :: nat) \<and> (of_char c :: nat) \<le> 122
      then char_of ((of_char c :: nat) - 32) else c)"

definition upper :: "string \<Rightarrow> string" where
  "upper s = map upper_char s"

text \<open>\<open>list.index(x)\<close>: the first position of \<open>x\<close>, or \<open>ValueError\<close>.\<close>

fun list_index :: "'a list \<Rightarrow> 'a \<Rightarrow> py_error + nat" where
  "list_index [] x = Inl ValueError"
| "list_index (y # ys) x =
     (if y = x then Inr 0
      else (case list_index ys x of Inl e \<Rightarrow> Inl e | Inr i \<Rightarrow> Inr (Suc i)))"

text \<open>
  \<^verbatim>\<open>
  def level_ge(a, b):
      try:
          return LEVELS.index(a.upper()) >= LEVELS.index(b.upper())
      except ValueError:
          return False
  \<close>
\<close>

definition level_ge :: "string \<Rightarrow> string \<Rightarrow> bool" where
  "level_ge a b =
     (case list_index LEVELS (upper a) of
        Inl e \<Rightarrow> False
      | Inr i \<Rightarrow>
          (case list_index LEVELS (upper b) of
             Inl e \<Rightarrow> False
           | Inr j \<Rightarrow> j \<le> i))"

subsection \<open>The scale as the specification words it\<close>

text \<open>
  The total order \<open>NONE < LOW < MEDIUM < HIGH < CRITICAL\<close> of the specification, as a
  datatype with its rank; \<open>token\<close> gives the text of a level and \<open>parse_severity\<close> reads
  a text as a level without regard to letter case.
\<close>

datatype severity = NONE | LOW | MEDIUM | HIGH | CRITICAL

fun rank :: "severity \<Rightarrow> nat" where
  "rank NONE = 0"
| "rank LOW = 1"
| "rank MEDIUM = 2"
| "rank HIGH = 3"
| "rank CRITICAL = 4"

fun token :: "severity \<Rightarrow> string" where
  "token NONE = ''NONE''"
| "token LOW = ''LOW''"
| "token MEDIUM = ''MEDIUM''"
| "token HIGH = ''HIGH''"
| "token CRITICAL = ''CRITICAL''"


section \<open>JSON values and the defensive decoder (utils/llm_client.py)\<close>

text \<open>
  The values \<open>json.loads\<close> returns: \<open>None\<close>, booleans, integers, floats, strings,
  lists and dicts (a dict as the list of its items, keys distinct). A float is carried
  as the text Python prints for it, since only that text is ever used.
\<close>

datatype json =
    JNull
  | JBool bool
  | JInt int
  | JFloat string
  | JString string
  | JArray "json list"
  | JObject "(string \<times> json) list"

text \<open>
  \<^verbatim>\<open>
  def _robust_json(txt: str) -> dict:
      obj: object = txt
      for _ in range(3):
          if not isinstance(obj, str):
              break
          obj = json.loads(obj)
      if not isinstance(obj, dict):
          raise ValueError("response is not a JSON object")
      return obj
  \<close>
  \<open>json.loads\<close> is the standard library's; the model takes it as the parameter
  \<open>loads\<close>, which returns the decoded value or the exception it raises.
  \<open>robust_loop loads n obj\<close> is the \<open>for\<close> loop with \<open>n\<close> rounds left.
\<close>

fun robust_loop :: "(string \<Rightarrow> py_error + json) \<Rightarrow> nat \<Rightarrow> json \<Rightarrow> py_error + json" where
  "robust_loop loads 0 obj = Inr obj"
| "robust_loop loads (Suc n) obj =
     (case obj of
        JString s \<Rightarrow>
          (case loads s of
             Inl e \<Rightarrow> Inl e
           | Inr v \<Rightarrow> robust_loop loads n v)
      | _ \<Rightarrow> Inr obj)"

definition robust_json ::
  "(string \<Rightarrow> py_error + json) \<Rightarrow> string \<Rightarrow> py_error + (string \<times> json) list" where
  "robust_json loads txt =
     (case robust_loop loads 3 (JString txt) of
        Inl e \<Rightarrow> Inl e
      | Inr obj \<Rightarrow>
          (case obj of
             JObject d \<Rightarrow> Inr d
           | _ \<Rightarrow> Inl ValueError))"

text \<open>
  Re-encoded text. \<open>wrapped loads k t v\<close>: the text \<open>t\<close> is the JSON text of \<open>v\<close>
  wrapped \<open>k\<close> times as a JSON string. With \<open>k = 0\<close> the text decodes to \<open>v\<close>
  itself; with \<open>k + 1\<close> it decodes to a string that is \<open>v\<close> wrapped \<open>k\<close> times.
\<close>

fun wrapped :: "(string \<Rightarrow> py_error + json) \<Rightarrow> nat \<Rightarrow> string \<Rightarrow> json \<Rightarrow> bool" where
  "wrapped loads 0 t v = (loads t = Inr v)"
| "wrapped loads (Suc k) t v =
     (case loads t of
        Inl e \<Rightarrow> False
      | Inr u \<Rightarrow> (case u of JString t' \<Rightarrow> wrapped loads k t' v | _ \<Rightarrow> False))"

text \<open>
  The same with an encoder: \<open>reencode dumps k v\<close> is the text \<open>dumps v\<close> encoded
  \<open>k\<close> more times as a JSON string.
\<close>

fun reencode :: "(json \<Rightarrow> string) \<Rightarrow> nat \<Rightarrow> json \<Rightarrow> string" where
  "reencode dumps 0 v = dumps v"
| "reencode dumps (Suc k) v = dumps (JString (reencode dumps k v))"

text \<open>
  A decoder for the examples below. It agrees with \<open>json.loads\<close> on the text of the
  empty mapping \<open>{}\<close> wrapped up to three times (\<open>json.dumps\<close> applied one to four
  times to the empty dict), and the examples give it no other text; \<open>dq\<close> is the
  double quote and \<open>bs\<close> the backslash.
\<close>

definition dq :: char where
  "dq = CHR 0x22"

definition bs :: char where
  "bs = CHR 0x5C"

definition text0 :: string where
  "text0 = ''{}''"

definition text1 :: string where
  "text1 = [dq] @ ''{}'' @ [dq]"

definition text2 :: string where
  "text2 = [dq, bs, dq] @ ''{}'' @ [bs, dq, dq]"

definition text3 :: string where
  "text3 = [dq, bs, dq, bs, bs, bs, dq] @ ''{}'' @ [bs, bs, bs, dq, bs, dq, dq]"

definition loads_sample :: "string \<Rightarrow> py_error + json" where
  "loads_sample t =
     (if t = text0 then Inr (JObject [])
      else if t = text1 then Inr (JString text0)
      else if t = text2 then Inr (JString text1)
      else if t = text3 then Inr (JString text2)
      else Inl JSONDecodeError)"

section \<open>Python text helpers\<close>

text \<open>
  \<open>sep.join(xs)\<close>, \<open>str(x)\<close> of a decoded JSON value (an f-string field formats its
  value the same way), \<open>dict.get(k, default)\<close>, \<open>d[k]\<close> and \<open>str(p)\<close> of a \<open>pathlib\<close>
  path, which is modelled as the list of its parts. The text of a list or dict holds
  the \<open>repr\<close> of its strings, modelled here for ASCII text: what Python escapes among
  the characters beyond ASCII is not part of this model.
\<close>

type_synonym path = "string list"

definition nl :: char where
  "nl = CHR 0x0A"

definition sq :: char where
  "sq = CHR 0x27"

fun py_join :: "string \<Rightarrow> string list \<Rightarrow> string" where
  "py_join sep [] = []"
| "py_join sep [x] = x"
| "py_join sep (x # y # ys) = x @ sep @ py_join sep (y # ys)"

definition path_str :: "path \<Rightarrow> string" where
  "path_str p =
     (case p of
        [] \<Rightarrow> ''.''
      | r # ps \<Rightarrow> if r = ''/'' \<or> r = ''//'' then r @ py_join ''/'' ps else py_join ''/'' p)"

fun digits :: "nat \<Rightarrow> string" where
  "digits n =
     (if n < 10 then [char_of (48 + n)]
      else digits (n div 10) @ [char_of (48 + n mod 10)])"

definition int_str :: "int \<Rightarrow> string" where
  "int_str i = (if i < 0 then ''-'' @ digits (nat (- i)) else digits (nat i))"

definition hex_digit :: "nat \<Rightarrow> char" where
  "hex_digit n = (if n < 10 then char_of (48 + n) else char_of (87 + n))"

definition repr_char :: "char \<Rightarrow> char \<Rightarrow> string" where
  "repr_char q c =
     (if c = bs then [bs, bs]
      else if c = q then [bs, q]
      else if c = nl then [bs, CHR ''n'']
      else if c = CHR 0x0D then [bs, CHR ''r'']
      else if c = CHR 0x09 then [bs, CHR ''t'']
      else if (of_char c :: nat) < 32 \<or> (of_char c :: nat) = 127
        then [bs, CHR ''x'', hex_digit ((of_char c :: nat) div 16),
              hex_digit ((of_char c :: nat) mod 16)]
      else [c])"

definition str_repr :: "string \<Rightarrow> string" where
  "str_repr s =
     (let q = (if sq \<in> set s \<and> dq \<notin> set s then dq else sq)
      in [q] @ concat (map (repr_char q) s) @ [q])"

fun py_repr :: "json \<Rightarrow> string" where
  "py_repr JNull = ''None''"
| "py_repr (JBool b) = (if b then ''True'' else ''False'')"
| "py_repr (JInt i) = int_str i"
| "py_repr (JFloat t) = t"
| "py_repr (JString s) = str_repr s"
| "py_repr (JArray xs) = ''['' @ py_join '', '' (map py_repr xs) @ '']''"
| "py_repr (JObject kvs) =
     ''{'' @ py_join '', '' (map (\<lambda>kv. str_repr (fst kv) @ '': '' @ py_repr (snd kv)) kvs)
       @ ''}''"

definition py_str :: "json \<Rightarrow> string" where
  "py_str v = (case v of JString s \<Rightarrow> s | _ \<Rightarrow> py_repr v)"

definition dict_get :: "('k \<times> 'v) list \<Rightarrow> 'k \<Rightarrow> 'v \<Rightarrow> 'v" where
  "dict_get d k dflt = (case map_of d k of None \<Rightarrow> dflt | Some v \<Rightarrow> v)"

definition dict_item :: "('k \<times> 'v) list \<Rightarrow> 'k \<Rightarrow> py_error + 'v" where
  "dict_item d k = (case map_of d k of None \<Rightarrow> Inl KeyError | Some v \<Rightarrow> Inr v)"

section \<open>The analysis pipeline (utils/llmanalyze.py)\<close>

subsection \<open>Data and environment\<close>

text \<open>
  The dicts the stages build (\<open>{"path", "markdown"}\<close>, \<open>{"path", "analysis"}\<close>,
  \<open>{"role", "content"}\<close>), the result of the trigger stage (\<open>{"triggered": False}\<close> or
  the outcome of the process), and the shared context: a dict whose key \<open>prompts\<close> is
  set at the start and whose other keys are set by one stage each, so a field is
  \<open>None\<close> until its stage has run and reading it then is a \<open>KeyError\<close>.
\<close>

record doc =
  doc_path :: string
  markdown :: string

record doc_analysis =
  da_path :: string
  analysis :: string

record message =
  role :: string
  content :: string

record proc_result =
  returncode :: int
  stdout :: string
  stderr :: string

datatype trigger_result = NotTriggered | Triggered int string string

type_synonym prompt = "(string \<times> string) list"

record shared =
  sh_prompts :: "(string \<times> prompt) list"
  sh_docs :: "doc list option"
  sh_doc_analyses :: "doc_analysis list option"
  sh_final :: "string option"
  sh_evaluation :: "(string \<times> json) list option"
  sh_trigger_result :: "trigger_result option"

text \<open>
  What the pipeline calls outside this repository's analysis code: the names
  \<open>glob("*.md")\<close> finds in a directory (in any order), \<open>convert_file\<close>, the model
  backend \<open>call_llm\<close> (its answer may depend on a state \<open>'w\<close> of the outside world,
  which it may change), \<open>json.loads\<close>, \<open>str.encode\<close> (the UTF-8 bytes of a text, or
  \<open>UnicodeEncodeError\<close> for a text that holds a lone surrogate), \<open>shlex.split\<close>,
  \<open>subprocess.run\<close> with the bytes given on standard input (the process may change
  the outside world too), \<open>bytes.decode\<close> (the text of an output stream, or
  \<open>UnicodeDecodeError\<close>), and the outcome of \<open>load_prompts\<close>.
\<close>

record 'w env =
  glob_md :: "path \<Rightarrow> string list"
  convert_file :: "path \<Rightarrow> py_error + string"
  call_llm :: "message list \<Rightarrow> 'w \<Rightarrow> (py_error + string) \<times> 'w"
  json_loads :: "string \<Rightarrow> py_error + json"
  str_encode :: "string \<Rightarrow> py_error + string"
  shlex_split :: "string \<Rightarrow> py_error + string list"
  subprocess_run :: "string list \<Rightarrow> string \<Rightarrow> 'w \<Rightarrow> (py_error + proc_result) \<times> 'w"
  bytes_decode :: "string \<Rightarrow> py_error + string"
  load_prompts :: "py_error + (string \<times> prompt) list"

text \<open>
  The state of one run: the outside world, and a log of what the run did to it (every
  backend call with its messages and its outcome, every process started with its
  arguments and input, every file written with its text).
\<close>

record 'w state =
  world :: 'w
  llm_log :: "(message list \<times> (py_error + string)) list"
  proc_log :: "(string list \<times> string) list"
  written :: "(string \<times> string) list"

definition llm :: "'w env \<Rightarrow> message list \<Rightarrow> 'w state \<Rightarrow> (py_error + string) \<times> 'w state" where
  "llm env msg st =
     (case call_llm env msg (world st) of
        (r, w') \<Rightarrow> (r, st\<lparr>world := w', llm_log := llm_log st @ [(msg, r)]\<rparr>))"

text \<open>
  The two messages every stage sends: the prompt's \<open>system\<close> text, and its \<open>user\<close>
  text, a blank line and the stage's own text.
\<close>

definition chat :: "prompt \<Rightarrow> string \<Rightarrow> message list" where
  "chat pr body =
     [\<lparr>role = ''system'', content = dict_get pr ''system'' []\<rparr>,
      \<lparr>role = ''user'', content = dict_get pr ''user'' [] @ [nl, nl] @ body\<rparr>]"

subsection \<open>Load\<close>

text \<open>
  \<^verbatim>\<open>
  def prep(self, _shared):
      return sorted(self.input_dir.glob("*.md"))
  def exec(self, paths):
      out = []
      for p in paths:
          out.append({"path": str(p), "markdown": convert_file(p)})
      return out
  def post(self, shared, _prep, res):
      shared["docs"] = res
  \<close>
  Paths compare by their lists of parts, a list before its extensions and strings by
  their characters.
\<close>

definition LoadMarkdown_prep :: "'w env \<Rightarrow> path \<Rightarrow> path list" where
  "LoadMarkdown_prep env input_dir = sort (map (\<lambda>n. input_dir @ [n]) (glob_md env input_dir))"

fun LoadMarkdown_exec :: "'w env \<Rightarrow> path list \<Rightarrow> py_error + doc list" where
  "LoadMarkdown_exec env [] = Inr []"
| "LoadMarkdown_exec env (p # ps) =
     (case convert_file env p of
        Inl e \<Rightarrow> Inl e
      | Inr md \<Rightarrow>
          (case LoadMarkdown_exec env ps of
             Inl e \<Rightarrow> Inl e
           | Inr out \<Rightarrow> Inr (\<lparr>doc_path = path_str p, markdown = md\<rparr> # out)))"

definition LoadMarkdown :: "'w env \<Rightarrow> path \<Rightarrow> shared \<Rightarrow> py_error + shared" where
  "LoadMarkdown env input_dir sh =
     (case LoadMarkdown_exec env (LoadMarkdown_prep env input_dir) of
        Inl e \<Rightarrow> Inl e
      | Inr res \<Rightarrow> Inr (sh\<lparr>sh_docs := Some res\<rparr>))"

subsection \<open>Per-document analysis\<close>

text \<open>
  \<^verbatim>\<open>
  def prep(self, shared):
      return shared["docs"], shared["prompts"]["per_doc"]
  def exec(self, data):
      docs, prompt = data
      results = []
      for d in docs:
          msg = [
              {"role": "system", "content": prompt.get("system", "")},
              {"role": "user", "content": f"{prompt.get('user','')}\n\n{d['markdown']}"},
          ]
          analysis = call_llm(msg, ...)
          results.append({"path": d["path"], "analysis": analysis})
      return results
  def post(self, shared, _prep, res):
      shared["doc_analyses"] = res
  \<close>
\<close>

fun AnalyzeEachDoc_exec ::
  "'w env \<Rightarrow> prompt \<Rightarrow> doc list \<Rightarrow> 'w state \<Rightarrow> (py_error + doc_analysis list) \<times> 'w state" where
  "AnalyzeEachDoc_exec env pr [] st = (Inr [], st)"
| "AnalyzeEachDoc_exec env pr (d # ds) st =
     (case llm env (chat pr (markdown d)) st of
        (Inl e, st') \<Rightarrow> (Inl e, st')
      | (Inr a, st') \<Rightarrow>
          (case AnalyzeEachDoc_exec env pr ds st' of
             (Inl e, st'') \<Rightarrow> (Inl e, st'')
           | (Inr results, st'') \<Rightarrow>
               (Inr (\<lparr>da_path = doc_path d, analysis = a\<rparr> # results), st'')))"

definition AnalyzeEachDoc :: "'w env \<Rightarrow> shared \<Rightarrow> 'w state \<Rightarrow> (py_error + shared) \<times> 'w state" where
  "AnalyzeEachDoc env sh st =
     (case sh_docs sh of
        None \<Rightarrow> (Inl KeyError, st)
      | Some docs \<Rightarrow>
          (case dict_item (sh_prompts sh) ''per_doc'' of
             Inl e \<Rightarrow> (Inl e, st)
           | Inr pr \<Rightarrow>
               (case AnalyzeEachDoc_exec env pr docs st of
                  (Inl e, st') \<Rightarrow> (Inl e, st')
                | (Inr res, st') \<Rightarrow> (Inr (sh\<lparr>sh_doc_analyses := Some res\<rparr>), st'))))"

subsection \<open>Synthesis\<close>

text \<open>
  \<^verbatim>\<open>
  def prep(self, shared):
      return shared["doc_analyses"], shared["prompts"]["final_synthesis"]
  def exec(self, data):
      anns, prompt = data
      combined = "\n\n---\n\n".join(a["analysis"] for a in anns)
      msg = [
          {"role": "system", "content": prompt.get("system", "")},
          {"role": "user", "content": f"{prompt.get('user','')}\n\n{combined}"},
      ]
      return call_llm(msg, ...)
  def post(self, shared, _prep, res):
      shared["final"] = res
  \<close>
\<close>

definition separator :: string where
  "separator = [nl, nl] @ ''---'' @ [nl, nl]"

definition FinalReport_exec ::
  "'w env \<Rightarrow> prompt \<Rightarrow> doc_analysis list \<Rightarrow> 'w state \<Rightarrow> (py_error + string) \<times> 'w state" where
  "FinalReport_exec env pr anns st =
     (let combined = py_join separator (map analysis anns)
      in llm env (chat pr combined) st)"

definition FinalReport :: "'w env \<Rightarrow> shared \<Rightarrow> 'w state \<Rightarrow> (py_error + shared) \<times> 'w state" where
  "FinalReport env sh st =
     (case sh_doc_analyses sh of
        None \<Rightarrow> (Inl KeyError, st)
      | Some anns \<Rightarrow>
          (case dict_item (sh_prompts sh) ''final_synthesis'' of
             Inl e \<Rightarrow> (Inl e, st)
           | Inr pr \<Rightarrow>
               (case FinalReport_exec env pr anns st of
                  (Inl e, st') \<Rightarrow> (Inl e, st')
                | (Inr res, st') \<Rightarrow> (Inr (sh\<lparr>sh_final := Some res\<rparr>), st'))))"

subsection \<open>Evaluation\<close>

text \<open>
  \<^verbatim>\<open>
  def prep(self, shared):
      return shared["final"], shared["prompts"]["evaluation"]
  def exec(self, data):
      final_md, prompt = data
      msg = [
          {"role": "system", "content": prompt.get("system", "")},
          {"role": "user", "content": f"{prompt.get('user','')}\n\n{final_md}"},
      ]
      return call_llm_json(msg, ...)
  def post(self, shared, _prep, res):
      shared["evaluation"] = res
  \<close>
  where \<open>call_llm_json\<close> is \<open>_robust_json(call_llm(...))\<close>.
\<close>

definition EvaluateFinal_exec ::
  "'w env \<Rightarrow> prompt \<Rightarrow> string \<Rightarrow> 'w state \<Rightarrow> (py_error + (string \<times> json) list) \<times> 'w state" where
  "EvaluateFinal_exec env pr final_md st =
     (case llm env (chat pr final_md) st of
        (Inl e, st') \<Rightarrow> (Inl e, st')
      | (Inr txt, st') \<Rightarrow> (robust_json (json_loads env) txt, st'))"

definition EvaluateFinal :: "'w env \<Rightarrow> shared \<Rightarrow> 'w state \<Rightarrow> (py_error + shared) \<times> 'w state" where
  "EvaluateFinal env sh st =
     (case sh_final sh of
        None \<Rightarrow> (Inl KeyError, st)
      | Some final_md \<Rightarrow>
          (case dict_item (sh_prompts sh) ''evaluation'' of
             Inl e \<Rightarrow> (Inl e, st)
           | Inr pr \<Rightarrow>
               (case EvaluateFinal_exec env pr final_md st of
                  (Inl e, st') \<Rightarrow> (Inl e, st')
                | (Inr res, st') \<Rightarrow> (Inr (sh\<lparr>sh_evaluation := Some res\<rparr>), st'))))"

subsection \<open>Trigger\<close>

text \<open>
  \<^verbatim>\<open>
  def prep(self, shared):
      return self.cmd, self.threshold, self.target, shared.get("evaluation", {})
  def exec(self, data):
      cmd, threshold, target, evaluation = data
      if not cmd:
          return {"triggered": False}
      level = str(evaluation.get("level", "NONE"))
      if not level_ge(level, threshold):
          return {"triggered": False}
      line = f"{target} {evaluation.get('security_score','N/A')} {level}\n".encode()
      proc = subprocess.run(
          shlex.split(cmd), input=line, stdout=subprocess.PIPE, stderr=subprocess.PIPE
      )
      return {"triggered": True, "returncode": proc.returncode,
              "stdout": proc.stdout.decode(), "stderr": proc.stderr.decode()}
  def post(self, shared, _prep, res):
      shared["trigger_result"] = res
  \<close>
  \<open>not cmd\<close> holds for \<open>None\<close> and for the empty string. The line is encoded before
  the command is split, the command is split before the process starts, and the
  output streams are decoded, standard output first, after it has ended. The messages
  printed under \<open>VERBOSE\<close> are left out of the model of this file.
\<close>

definition evaluation_level :: "(string \<times> json) list \<Rightarrow> string" where
  "evaluation_level evaluation = py_str (dict_get evaluation ''level'' (JString ''NONE''))"

definition trigger_line :: "string \<Rightarrow> (string \<times> json) list \<Rightarrow> string" where
  "trigger_line target evaluation =
     target @ '' '' @ py_str (dict_get evaluation ''security_score'' (JString ''N/A''))
       @ '' '' @ evaluation_level evaluation @ [nl]"

definition TriggerTool_exec ::
  "'w env \<Rightarrow> string option \<Rightarrow> string \<Rightarrow> string \<Rightarrow> (string \<times> json) list \<Rightarrow> 'w state
     \<Rightarrow> (py_error + trigger_result) \<times> 'w state" where
  "TriggerTool_exec env cmd threshold target evaluation st =
     (case cmd of
        None \<Rightarrow> (Inr NotTriggered, st)
      | Some c \<Rightarrow>
          if c = [] then (Inr NotTriggered, st)
          else if \<not> level_ge (evaluation_level evaluation) threshold
            then (Inr NotTriggered, st)
          else
            (case str_encode env (trigger_line target evaluation) of
               Inl e \<Rightarrow> (Inl e, st)
             | Inr line \<Rightarrow>
                 (case shlex_split env c of
                    Inl e \<Rightarrow> (Inl e, st)
                  | Inr argv \<Rightarrow>
                      (case subprocess_run env argv line (world st) of
                         (r, w') \<Rightarrow>
                           (let st' = st\<lparr>world := w',
                                        proc_log := proc_log st @ [(argv, line)]\<rparr>
                            in case r of
                                 Inl e \<Rightarrow> (Inl e, st')
                               | Inr proc \<Rightarrow>
                                   (case bytes_decode env (stdout proc) of
                                      Inl e \<Rightarrow> (Inl e, st')
                                    | Inr out_text \<Rightarrow>
                                        (case bytes_decode env (stderr proc) of
                                           Inl e \<Rightarrow> (Inl e, st')
                                         | Inr err_text \<Rightarrow>
                                             (Inr (Triggered (returncode proc) out_text
                                                     err_text),
                                              st'))))))))"


definition TriggerTool ::
  "'w env \<Rightarrow> string option \<Rightarrow> string \<Rightarrow> string \<Rightarrow> shared \<Rightarrow> 'w state
     \<Rightarrow> (py_error + shared) \<times> 'w state" where
  "TriggerTool env cmd threshold target sh st =
     (let evaluation = (case sh_evaluation sh of None \<Rightarrow> [] | Some ev \<Rightarrow> ev)
      in case TriggerTool_exec env cmd threshold target evaluation st of
           (Inl e, st') \<Rightarrow> (Inl e, st')
         | (Inr res, st') \<Rightarrow> (Inr (sh\<lparr>sh_trigger_result := Some res\<rparr>), st'))"

subsection \<open>The flow and the program\<close>

text \<open>
  \<open>build_flow\<close> chains the five nodes (\<open>a >> b >> c >> d >> e\<close>) and \<open>flow.run\<close> runs
  them in that order on the shared context; each node runs \<open>prep\<close>, \<open>exec\<close> and
  \<open>post\<close>, and an exception in a node ends the run.
\<close>

definition flow_run ::
  "'w env \<Rightarrow> path \<Rightarrow> string option \<Rightarrow> string \<Rightarrow> string \<Rightarrow> shared \<Rightarrow> 'w state
     \<Rightarrow> (py_error + shared) \<times> 'w state" where
  "flow_run env inp trig_cmd thr tgt sh st =
     (case LoadMarkdown env inp sh of
        Inl e \<Rightarrow> (Inl e, st)
      | Inr sh1 \<Rightarrow>
          (case AnalyzeEachDoc env sh1 st of
             (Inl e, st1) \<Rightarrow> (Inl e, st1)
           | (Inr sh2, st1) \<Rightarrow>
               (case FinalReport env sh2 st1 of
                  (Inl e, st2) \<Rightarrow> (Inl e, st2)
                | (Inr sh3, st2) \<Rightarrow>
                    (case EvaluateFinal env sh3 st2 of
                       (Inl e, st3) \<Rightarrow> (Inl e, st3)
                     | (Inr sh4, st3) \<Rightarrow> TriggerTool env trig_cmd thr tgt sh4 st3))))"

text \<open>
  \<^verbatim>\<open>
  def main() -> None:
      ...
      prompts = load_prompts(PROMPTS_YAML)
      shared: Dict[str, Any] = {"prompts": prompts}
      flow = build_flow(args.input, args.trigger_cmd, args.level_threshold, args.target_name)
      flow.run(shared=shared)
      report = shared["final"]
      evaln = shared.get("evaluation", {})
      appendix = (
          "\n\n---\n\n## Security Relevance Evaluation\n"
          f"**Level:** {evaln.get('level','UNKNOWN')}  \n"
          f"**Score:** {evaln.get('security_score','N/A')}  \n"
          f"**Summary:** {evaln.get('summary','')}\n\n"
      )
      args.output.write_text(report + appendix, encoding="utf-8")
  \<close>
  The process ends with status 0 when \<open>main\<close> returns and with status 1 when an
  exception leaves it.
\<close>

record args =
  arg_input :: path
  arg_output :: path
  arg_trigger_cmd :: "string option"
  arg_level_threshold :: string
  arg_target_name :: string

definition appendix :: "(string \<times> json) list \<Rightarrow> string" where
  "appendix evaln =
     [nl, nl] @ ''---'' @ [nl, nl] @ ''## Security Relevance Evaluation'' @ [nl]
     @ ''**Level:** '' @ py_str (dict_get evaln ''level'' (JString ''UNKNOWN'')) @ ''  '' @ [nl]
     @ ''**Score:** '' @ py_str (dict_get evaln ''security_score'' (JString ''N/A'')) @ ''  '' @ [nl]
     @ ''**Summary:** '' @ py_str (dict_get evaln ''summary'' (JString [])) @ [nl, nl]"

definition main :: "'w env \<Rightarrow> args \<Rightarrow> 'w state \<Rightarrow> (py_error + unit) \<times> 'w state" where
  "main env a st =
     (case load_prompts env of
        Inl e \<Rightarrow> (Inl e, st)
      | Inr prompts \<Rightarrow>
          (case flow_run env (arg_input a) (arg_trigger_cmd a) (arg_level_threshold a)
                  (arg_target_name a)
                  \<lparr>sh_prompts = prompts, sh_docs = None, sh_doc_analyses = None,
                   sh_final = None, sh_evaluation = None, sh_trigger_result = None\<rparr> st of
             (Inl e, st') \<Rightarrow> (Inl e, st')
           | (Inr sh, st') \<Rightarrow>
               (case sh_final sh of
                  None \<Rightarrow> (Inl KeyError, st')
                | Some report \<Rightarrow>
                    (let evaln = (case sh_evaluation sh of None \<Rightarrow> [] | Some ev \<Rightarrow> ev)
                     in (Inr (),
                         st'\<lparr>written := written st'
                                @ [(path_str (arg_output a), report @ appendix evaln)]\<rparr>)))))"

definition exit_status :: "py_error + unit \<Rightarrow> int" where
  "exit_status r = (case r of Inl e \<Rightarrow> 1 | Inr u \<Rightarrow> 0)"

subsection \<open>A sample environment\<close>

text \<open>
  A small environment for the examples: a directory with two documents found in the
  order \<open>b.md\<close>, \<open>a.md\<close>; a backend that numbers its answers (the world is the number
  of calls so far); \<open>json.loads\<close> as tabulated above; texts that all encode and
  decode to themselves; \<open>shlex.split\<close> on the two commands of the examples, the word
  \<open>notify\<close> and a command with an opening double quote that is never closed, which
  \<open>shlex.split\<close> refuses with \<open>ValueError\<close>; a process that ends with status 0, prints
  nothing and leaves the world as it is, and in \<open>env_notify\<close> a process that prints
  \<open>sent\<close> and adds 100 to the world.
\<close>

definition prompts_sample :: "(string \<times> prompt) list" where
  "prompts_sample =
     [(''per_doc'', [(''system'', ''S1''), (''user'', ''U1'')]),
      (''final_synthesis'', [(''system'', ''S2''), (''user'', ''U2'')]),
      (''evaluation'', [(''system'', ''S3''), (''user'', ''U3'')])]"

definition env_sample :: "nat env" where
  "env_sample =
     \<lparr>glob_md = (\<lambda>d. [''b.md'', ''a.md'']),
      convert_file = (\<lambda>p. Inr (''text of '' @ path_str p)),
      call_llm = (\<lambda>msg w. (Inr (if w = 3 then text1 else ''answer '' @ digits w), Suc w)),
      json_loads = loads_sample,
      str_encode = (\<lambda>t. Inr t),
      shlex_split = (\<lambda>c. if c = ''notify'' then Inr [''notify''] else Inl ValueError),
      subprocess_run =
        (\<lambda>argv line w. (Inr \<lparr>returncode = 0, stdout = [], stderr = []\<rparr>, w)),
      bytes_decode = (\<lambda>b. Inr b),
      load_prompts = Inr prompts_sample\<rparr>"



definition state_sample :: "nat state" where
  "state_sample = \<lparr>world = 0, llm_log = [], proc_log = [], written = []\<rparr>"


section \<open>The orchestrator (diffalayze.py)\<close>

subsection \<open>Paths and the file system\<close>

text \<open>
  \<open>Path(name)\<close> splits a name at its slashes and drops empty parts and \<open>.\<close> parts; an
  absolute path starts with the part \<open>/\<close>, or with \<open>//\<close> when the name starts with
  exactly two slashes. \<open>p.name\<close> is the last part, \<open>base / p\<close> is
  \<open>p\<close> when \<open>p\<close> is absolute and \<open>base\<close> followed by \<open>p\<close> otherwise, and
  \<open>t.relative_to(base)\<close> succeeds when the parts of \<open>base\<close> are a prefix of those of
  \<open>t\<close>. \<open>Path.resolve\<close> follows the links of the file system and is a parameter.
\<close>

fun split_on :: "char \<Rightarrow> string \<Rightarrow> string list" where
  "split_on c [] = [[]]"
| "split_on c (x # xs) =
     (if x = c then [] # split_on c xs
      else (case split_on c xs of
              [] \<Rightarrow> [[x]]
            | w # ws \<Rightarrow> (x # w) # ws))"

definition Path :: "string \<Rightarrow> path" where
  "Path name =
     (if take 2 name = ''//'' \<and> take 3 name \<noteq> ''///'' then [''//'']
      else if take 1 name = ''/'' then [''/'']
      else [])
     @ filter (\<lambda>w. w \<noteq> [] \<and> w \<noteq> ''.'') (split_on (CHR ''/'') name)"

definition is_absolute :: "path \<Rightarrow> bool" where
  "is_absolute p = (case p of [] \<Rightarrow> False | r # ps \<Rightarrow> r = ''/'' \<or> r = ''//'')"

definition joinpath :: "path \<Rightarrow> path \<Rightarrow> path" where
  "joinpath base p = (if is_absolute p then p else base @ p)"

definition path_name :: "path \<Rightarrow> string" where
  "path_name p = (if p = [] \<or> p = [''/''] \<or> p = [''//''] then [] else last p)"

text \<open>
  The file system: what is at each path. \<open>mkdir(parents=True, exist_ok=True)\<close> makes
  the directory and its missing parents and fails on a file in the way.
  \<open>shutil.move(src, dst)\<close> moves into \<open>dst\<close> when that is a directory, and to \<open>dst\<close>
  otherwise; a file needs the directory it moves to, a directory moves with all it
  holds (its new parents made as needed) and not into itself.
\<close>

datatype node = File | Dir

type_synonym fs = "path \<Rightarrow> node option"

definition mkdir_p :: "fs \<Rightarrow> path \<Rightarrow> py_error + fs" where
  "mkdir_p f p =
     (if list_ex (\<lambda>q. f q = Some File) (prefixes p) then Inl OSError
      else Inr (\<lambda>q. if q \<noteq> [] \<and> prefix q p then Some Dir else f q))"

definition move :: "fs \<Rightarrow> path \<Rightarrow> path \<Rightarrow> py_error + fs" where
  "move f src dst =
     (let real_dst = (if f dst = Some Dir then dst @ [path_name src] else dst)
      in case f src of
           None \<Rightarrow> Inl FileNotFoundError
         | Some kind \<Rightarrow>
             if src = dst then Inr f
             else if f dst = Some Dir \<and> f real_dst \<noteq> None then Inl OSError
             else
               (case kind of
                  File \<Rightarrow>
                    if butlast real_dst \<noteq> [] \<and> f (butlast real_dst) \<noteq> Some Dir
                      then Inl FileNotFoundError
                    else Inr (f(src := None, real_dst := Some File))
                | Dir \<Rightarrow>
                    if prefix src real_dst \<or> f real_dst \<noteq> None
                       \<or> list_ex (\<lambda>q. f q = Some File) (prefixes real_dst)
                      then Inl OSError
                    else
                      Inr (\<lambda>q. if prefix real_dst q
                                  then f (src @ drop (length real_dst) q)
                                else if prefix src q then None
                                else if q \<noteq> [] \<and> prefix q real_dst then Some Dir
                                else f q)))"

subsection \<open>Configuration, environment and state\<close>

text \<open>
  The module's globals set from the command line, what the orchestrator calls outside
  itself, and its state. The environment holds the two fixed paths, \<open>Path.resolve\<close>,
  the user and group ids, the fetch script of a target (loading it says whether it
  defines \<open>check_and_download\<close>; calling that gives its result; both may change the
  file system and may raise), the diffing engine (its exit status and what it wrote on
  standard error, or the exception of a process that could not start) and the exit
  status of the analysis process. The state holds the file system, the lines printed,
  the fetch scripts executed, the engine command lines run, the diff threads started,
  the queue of archives to analyse and the analysis command lines run.
\<close>

record config =
  VERBOSE :: bool
  LLM_VERBOSE :: bool
  ANALYZE :: bool
  LLM_TRIGGER_CMD :: "string option"
  LLM_LEVEL_THRESHOLD :: string
  LLM_BACKEND :: string
  LLM_MODEL :: "string option"

datatype fetch_result = FPair string string | FFalse | FOther string

datatype capture = NoOutput | Text string | Undecodable

type_synonym job = "path \<times> path \<times> path"

record oenv =
  TARGETS_DIR :: path
  LLM_SCRIPT :: path
  resolve :: "path \<Rightarrow> path"
  UID :: nat
  GID :: nat
  exec_module :: "path \<Rightarrow> fs \<Rightarrow> (py_error + bool) \<times> fs"
  check_and_download :: "path \<Rightarrow> fs \<Rightarrow> (py_error + fetch_result) \<times> fs"
  engine :: "string list \<Rightarrow> fs \<Rightarrow> (py_error + int \<times> capture) \<times> fs"
  llmanalyze :: "string list \<Rightarrow> fs \<Rightarrow> int \<times> fs"

record ostate =
  fs :: fs
  out :: "string list"
  loaded :: "path list"
  engine_runs :: "string list list"
  ghidriff_threads :: "(string \<times> job) list"
  analyze_queue :: "(string \<times> path) list"
  children :: "string list list"

definition SCRIPT_NAME :: string where
  "SCRIPT_NAME = ''fetch_target.py''"

definition log :: "string \<Rightarrow> ostate \<Rightarrow> ostate" where
  "log msg st = st\<lparr>out := out st @ [msg]\<rparr>"

subsection \<open>Resolving a target and running its fetch script\<close>

text \<open>
  \<^verbatim>\<open>
  def resolve_target_dir(name: str) -> Path:
      base = TARGETS_DIR
      p = Path(name)
      t = p.resolve() if p.is_absolute() else (base / p).resolve()
      try:
          t.relative_to(base)
      except ValueError:
          raise ValueError(f"Target '{name}' is outside {base}")
      if not t.is_dir():
          raise FileNotFoundError(f"Target directory not found: {t}")
      return t
  \<close>
\<close>

definition target_path :: "oenv \<Rightarrow> string \<Rightarrow> path" where
  "target_path env name =
     (let p = Path name
      in if is_absolute p then resolve env p else resolve env (joinpath (TARGETS_DIR env) p))"

definition resolve_target_dir :: "oenv \<Rightarrow> fs \<Rightarrow> string \<Rightarrow> py_error + path" where
  "resolve_target_dir env f name =
     (let t = target_path env name
      in if \<not> prefix (TARGETS_DIR env) t then Inl ValueError
         else if f t \<noteq> Some Dir then Inl FileNotFoundError
         else Inr t)"

text \<open>
  \<^verbatim>\<open>
  def load_and_run(target_name: str, force: bool):
      t_dir = resolve_target_dir(target_name)
      log(f"[*] Fetch script for {t_dir.name}")
      script = t_dir / SCRIPT_NAME
      v_log = t_dir / "version.log"
      if force and v_log.exists():
          v_log.unlink()
      if not script.is_file():
          log(f"[!] {SCRIPT_NAME} not found in {t_dir}")
          return
      spec = importlib.util.spec_from_file_location("fetch_target", str(script))
      mod = importlib.util.module_from_spec(spec)
      assert spec.loader is not None
      spec.loader.exec_module(mod)
      if not hasattr(mod, "check_and_download"):
          log("[!] Script lacks check_and_download()")
          return
      res = mod.check_and_download()
      if isinstance(res, tuple) and len(res) == 2 and all(res):
          old_p, new_p = map(Path, res)
          th = threading.Thread(target=_ghidriff_worker, args=(t_dir, old_p, new_p))
          th.start()
          ghidriff_threads.append((t_dir.name, th))
      elif res is False:
          log("[*] No update.")
      else:
          log(f"[!] Unexpected result: {res}")
  \<close>
  A result is a pair of strings, \<open>False\<close>, or something else, given by its text.
\<close>

definition fetch_result_str :: "fetch_result \<Rightarrow> string" where
  "fetch_result_str res =
     (case res of
        FPair a b \<Rightarrow> ''('' @ str_repr a @ '', '' @ str_repr b @ '')''
      | FFalse \<Rightarrow> ''False''
      | FOther t \<Rightarrow> t)"

definition dispatch :: "path \<Rightarrow> fetch_result \<Rightarrow> ostate \<Rightarrow> ostate" where
  "dispatch t_dir res st =
     (case res of
        FPair a b \<Rightarrow>
          if a \<noteq> [] \<and> b \<noteq> []
            then st\<lparr>ghidriff_threads :=
                      ghidriff_threads st @ [(path_name t_dir, (t_dir, Path a, Path b))]\<rparr>
          else log (''[!] Unexpected result: '' @ fetch_result_str res) st
      | FFalse \<Rightarrow> log ''[*] No update.'' st
      | FOther t \<Rightarrow> log (''[!] Unexpected result: '' @ fetch_result_str res) st)"

definition run_script :: "oenv \<Rightarrow> path \<Rightarrow> ostate \<Rightarrow> (py_error + unit) \<times> ostate" where
  "run_script env t_dir st =
     (let script = t_dir @ [SCRIPT_NAME]
      in if fs st script \<noteq> Some File
           then (Inr (), log (''[!] '' @ SCRIPT_NAME @ '' not found in '' @ path_str t_dir) st)
         else
           (let st1 = st\<lparr>loaded := loaded st @ [script]\<rparr>
            in case exec_module env script (fs st1) of
                 (Inl e, f1) \<Rightarrow> (Inl e, st1\<lparr>fs := f1\<rparr>)
               | (Inr has, f1) \<Rightarrow>
                   if \<not> has
                     then (Inr (), log ''[!] Script lacks check_and_download()'' (st1\<lparr>fs := f1\<rparr>))
                   else
                     (case check_and_download env script f1 of
                        (Inl e, f2) \<Rightarrow> (Inl e, st1\<lparr>fs := f2\<rparr>)
                      | (Inr res, f2) \<Rightarrow> (Inr (), dispatch t_dir res (st1\<lparr>fs := f2\<rparr>)))))"

definition load_and_run :: "oenv \<Rightarrow> string \<Rightarrow> bool \<Rightarrow> ostate \<Rightarrow> (py_error + unit) \<times> ostate" where
  "load_and_run env target_name force st =
     (case resolve_target_dir env (fs st) target_name of
        Inl e \<Rightarrow> (Inl e, st)
      | Inr t_dir \<Rightarrow>
          (let st1 = log (''[*] Fetch script for '' @ path_name t_dir) st;
               v_log = t_dir @ [''version.log'']
           in if force \<and> fs st1 v_log = Some Dir then (Inl OSError, st1)
              else run_script env t_dir
                     (if force \<and> fs st1 v_log = Some File
                        then st1\<lparr>fs := (fs st1)(v_log := None)\<rparr> else st1)))"

subsection \<open>One diff job\<close>

text \<open>
  \<^verbatim>\<open>
  def run_ghidriff_diff(t_dir: Path, old_f: Path, new_f: Path):
      target = t_dir.name
      diff_dir = t_dir / "ghidriffs"
      diff_dir.mkdir(parents=True, exist_ok=True)
      diff_dir.chmod(0o777)
      old_tar = diff_dir / old_f.name
      new_tar = diff_dir / new_f.name
      shutil.move(old_f, old_tar)
      shutil.move(new_f, new_tar)
      cmd = ["docker", "run", "--rm", "-u", f"{UID}:{GID}", "-e", "HOME=/tmp", "-e",
             "PYTHONPATH=/home/vscode/.local/lib/python3.12/site-packages", "-v",
             f"{diff_dir.resolve()}:/ghidriffs", "ghcr.io/clearbluejar/ghidriff:latest",
             "--force-diff", "--sxs", f"ghidriffs/{old_tar.name}", f"ghidriffs/{new_tar.name}"]
      log(f"[*] Ghidriff ({target})")
      try:
          subprocess.run(cmd, stdout=None if VERBOSE else subprocess.DEVNULL,
                         stderr=None if VERBOSE else subprocess.PIPE, check=True)
      except subprocess.CalledProcessError as e:
          log(f"[!] Ghidriff failed ({target})")
          if not VERBOSE and e.stderr:
              try:
                  log(e.stderr.decode() if isinstance(e.stderr, bytes) else e.stderr)
              except Exception:
                  pass
          return
      ts = datetime.now().strftime("%Y-%m-%d_%H%M%S")
      arch_dir = t_dir / "archive" / f"ghidriffs_{ts}"
      shutil.move(diff_dir, arch_dir)
      log(f"[+] Archived to {arch_dir}")
      if ANALYZE:
          analyze_queue.append((target, arch_dir))
  \<close>
  \<open>stage_inputs\<close> is the part before the engine runs (the working directory and the
  two moves; \<open>chmod\<close> changes no path), \<open>staged_so_far\<close> the file system up to the step
  of that part that failed, and \<open>docker_cmd\<close> the command line. The text of
  the clock when the job is archived is the argument \<open>ts\<close>.
\<close>

definition stage_inputs :: "fs \<Rightarrow> path \<Rightarrow> path \<Rightarrow> path \<Rightarrow> py_error + fs" where
  "stage_inputs f t_dir old_f new_f =
     (let diff_dir = t_dir @ [''ghidriffs'']
      in case mkdir_p f diff_dir of
           Inl e \<Rightarrow> Inl e
         | Inr f1 \<Rightarrow>
             (case move f1 old_f (diff_dir @ [path_name old_f]) of
                Inl e \<Rightarrow> Inl e
              | Inr f2 \<Rightarrow> move f2 new_f (diff_dir @ [path_name new_f])))"

definition staged_so_far :: "fs \<Rightarrow> path \<Rightarrow> path \<Rightarrow> path \<Rightarrow> fs" where
  "staged_so_far f t_dir old_f new_f =
     (let diff_dir = t_dir @ [''ghidriffs'']
      in case mkdir_p f diff_dir of
           Inl e \<Rightarrow> f
         | Inr f1 \<Rightarrow>
             (case move f1 old_f (diff_dir @ [path_name old_f]) of
                Inl e \<Rightarrow> f1
              | Inr f2 \<Rightarrow>
                  (case move f2 new_f (diff_dir @ [path_name new_f]) of
                     Inl e \<Rightarrow> f2
                   | Inr f3 \<Rightarrow> f3)))"

definition docker_cmd :: "oenv \<Rightarrow> path \<Rightarrow> path \<Rightarrow> path \<Rightarrow> string list" where
  "docker_cmd env t_dir old_f new_f =
     [''docker'', ''run'', ''--rm'', ''-u'', digits (UID env) @ '':'' @ digits (GID env),
      ''-e'', ''HOME=/tmp'', ''-e'',
      ''PYTHONPATH=/home/vscode/.local/lib/python3.12/site-packages'', ''-v'',
      path_str (resolve env (t_dir @ [''ghidriffs''])) @ '':/ghidriffs'',
      ''ghcr.io/clearbluejar/ghidriff:latest'', ''--force-diff'', ''--sxs'',
      ''ghidriffs/'' @ path_name old_f, ''ghidriffs/'' @ path_name new_f]"

definition run_ghidriff_diff ::
  "config \<Rightarrow> oenv \<Rightarrow> string \<Rightarrow> job \<Rightarrow> ostate \<Rightarrow> (py_error + unit) \<times> ostate" where
  "run_ghidriff_diff cfg env ts j st =
     (case j of (t_dir, old_f, new_f) \<Rightarrow>
        (let target = path_name t_dir;
             diff_dir = t_dir @ [''ghidriffs'']
         in case stage_inputs (fs st) t_dir old_f new_f of
              Inl e \<Rightarrow> (Inl e, st\<lparr>fs := staged_so_far (fs st) t_dir old_f new_f\<rparr>)
            | Inr f3 \<Rightarrow>
                (let cmd = docker_cmd env t_dir old_f new_f;
                     st1 = log (''[*] Ghidriff ('' @ target @ '')'') (st\<lparr>fs := f3\<rparr>);
                     st2 = st1\<lparr>engine_runs := engine_runs st1 @ [cmd]\<rparr>
                 in case engine env cmd f3 of
                      (Inl e, f4) \<Rightarrow> (Inl e, st2\<lparr>fs := f4\<rparr>)
                    | (Inr (code, err), f4) \<Rightarrow>
                        if code \<noteq> 0 then
                          (let st3 = log (''[!] Ghidriff failed ('' @ target @ '')'')
                                       (st2\<lparr>fs := f4\<rparr>)
                           in (Inr (),
                               if \<not> VERBOSE cfg
                                 then (case err of Text t \<Rightarrow> log t st3 | _ \<Rightarrow> st3)
                               else st3))
                        else
                          (let arch_dir = t_dir @ [''archive'', ''ghidriffs_'' @ ts]
                           in case move f4 diff_dir arch_dir of
                                Inl e \<Rightarrow> (Inl e, st2\<lparr>fs := f4\<rparr>)
                              | Inr f5 \<Rightarrow>
                                  (let st5 = log (''[+] Archived to '' @ path_str arch_dir)
                                               (st2\<lparr>fs := f5\<rparr>)
                                   in (Inr (),
                                       if ANALYZE cfg
                                         then st5\<lparr>analyze_queue :=
                                                    analyze_queue st5 @ [(target, arch_dir)]\<rparr>
                                       else st5))))))"

text \<open>
  The jobs run in threads of their own; an exception that leaves one ends that thread
  only. \<open>run_jobs\<close> runs the jobs one after another, each with the text of the clock at
  its end: one of the orders the threads may run in.
\<close>

fun run_jobs :: "config \<Rightarrow> oenv \<Rightarrow> (string \<times> job) list \<Rightarrow> ostate \<Rightarrow> ostate" where
  "run_jobs cfg env [] st = st"
| "run_jobs cfg env ((ts, j) # js) st = run_jobs cfg env js (snd (run_ghidriff_diff cfg env ts j st))"

subsection \<open>The analysis of the queued archives\<close>

text \<open>
  \<^verbatim>\<open>
  def run_llmanalyze(target: str, archive: Path):
      sxs_dir = archive / "sxs_html"
      if not sxs_dir.is_dir():
          print(f"[!] {sxs_dir} missing - skipping LLM analysis")
          return
      out_file = archive / "analysis.md"
      cmd = ["python3", str(LLM_SCRIPT), "-i", str(sxs_dir), "-o", str(out_file),
             "--level-threshold", LLM_LEVEL_THRESHOLD, "--target-name", target,
             "--llm-backend", LLM_BACKEND]
      if LLM_MODEL:
          cmd += ["--llm-model", LLM_MODEL]
      if LLM_TRIGGER_CMD:
          cmd += ["--trigger-cmd", LLM_TRIGGER_CMD]
      if LLM_VERBOSE:
          cmd.append("-v")
      print(f"[*] Starting LLM analysis of {target}")
      subprocess.run(cmd, check=True)
  \<close>
  With \<open>check=True\<close> a process that ends with a status other than 0 raises
  \<open>CalledProcessError\<close>.
\<close>

definition llm_cmd :: "config \<Rightarrow> oenv \<Rightarrow> string \<Rightarrow> path \<Rightarrow> string list" where
  "llm_cmd cfg env target archive =
     [''python3'', path_str (LLM_SCRIPT env), ''-i'', path_str (archive @ [''sxs_html'']),
      ''-o'', path_str (archive @ [''analysis.md'']),
      ''--level-threshold'', LLM_LEVEL_THRESHOLD cfg, ''--target-name'', target,
      ''--llm-backend'', LLM_BACKEND cfg]
     @ (case LLM_MODEL cfg of
          None \<Rightarrow> []
        | Some m \<Rightarrow> if m = [] then [] else [''--llm-model'', m])
     @ (case LLM_TRIGGER_CMD cfg of
          None \<Rightarrow> []
        | Some c \<Rightarrow> if c = [] then [] else [''--trigger-cmd'', c])
     @ (if LLM_VERBOSE cfg then [''-v''] else [])"

definition run_llmanalyze ::
  "config \<Rightarrow> oenv \<Rightarrow> string \<Rightarrow> path \<Rightarrow> ostate \<Rightarrow> (py_error + unit) \<times> ostate" where
  "run_llmanalyze cfg env target archive st =
     (let sxs_dir = archive @ [''sxs_html'']
      in if fs st sxs_dir \<noteq> Some Dir
           then (Inr (),
                 log (''[!] '' @ path_str sxs_dir @ '' missing - skipping LLM analysis'') st)
         else
           (let cmd = llm_cmd cfg env target archive;
                st1 = log (''[*] Starting LLM analysis of '' @ target) st;
                st2 = st1\<lparr>children := children st1 @ [cmd]\<rparr>
            in case llmanalyze env cmd (fs st2) of
                 (status, f1) \<Rightarrow>
                   if status = 0 then (Inr (), st2\<lparr>fs := f1\<rparr>)
                   else (Inl CalledProcessError, st2\<lparr>fs := f1\<rparr>)))"

text \<open>
  \<^verbatim>\<open>
  if ANALYZE:
      for t, a in analyze_queue:
          run_llmanalyze(t, a)
          if ANALYZE_SLEEP:
              time.sleep(ANALYZE_SLEEP)
  \<close>
  An exception that leaves \<open>run_llmanalyze\<close> leaves the loop and the program. The
  pause between two runs changes nothing in the state.
\<close>

fun analyze_loop ::
  "config \<Rightarrow> oenv \<Rightarrow> (string \<times> path) list \<Rightarrow> ostate \<Rightarrow> (py_error + unit) \<times> ostate" where
  "analyze_loop cfg env [] st = (Inr (), st)"
| "analyze_loop cfg env ((t, a) # q) st =
     (case run_llmanalyze cfg env t a st of
        (Inl e, st') \<Rightarrow> (Inl e, st')
      | (Inr u, st') \<Rightarrow> analyze_loop cfg env q st')"

definition analyze_all :: "config \<Rightarrow> oenv \<Rightarrow> ostate \<Rightarrow> (py_error + unit) \<times> ostate" where
  "analyze_all cfg env st =
     (if ANALYZE cfg then analyze_loop cfg env (analyze_queue st) st else (Inr (), st))"

subsection \<open>The concurrency bound\<close>

text \<open>
  \<^verbatim>\<open>
  GHIDRIFF_THREADS = max(0, int(args.ghidriff_threads))
  _ghidriff_sema = None if GHIDRIFF_THREADS == 0 else threading.Semaphore(GHIDRIFF_THREADS)

  def _ghidriff_worker(t_dir: Path, old_p: Path, new_p: Path):
      if _ghidriff_sema is None:
          run_ghidriff_diff(t_dir, old_p, new_p)
          return
      with _ghidriff_sema:
          run_ghidriff_diff(t_dir, old_p, new_p)
  \<close>
  The scheduler as a transition system. A thread is \<open>Waiting\<close> from \<open>th.start()\<close> until
  it enters \<open>run_ghidriff_diff\<close>, \<open>Running\<close> while it is inside (the engine runs only
  there) and \<open>Finished\<close> after. The semaphore is its counter, or \<open>None\<close> when there is
  no semaphore: entering the \<open>with\<close> block takes one from a counter that is not zero
  and waits otherwise; leaving the block gives one back.
\<close>

datatype phase = Waiting | Running | Finished

record sched =
  sema :: "nat option"
  workers :: "phase list"

definition make_sema :: "int \<Rightarrow> nat option" where
  "make_sema threads_arg =
     (let n = max 0 threads_arg in if n = 0 then None else Some (nat n))"

definition init_sched :: "int \<Rightarrow> sched" where
  "init_sched threads_arg = \<lparr>sema = make_sema threads_arg, workers = []\<rparr>"

definition submit :: "sched \<Rightarrow> sched" where
  "submit s = s\<lparr>workers := workers s @ [Waiting]\<rparr>"

inductive step :: "sched \<Rightarrow> sched \<Rightarrow> bool" where
  start: "step s (submit s)"
| enter_unbounded:
    "i < length (workers s) \<Longrightarrow> workers s ! i = Waiting \<Longrightarrow> sema s = None \<Longrightarrow>
     step s (s\<lparr>workers := (workers s)[i := Running]\<rparr>)"
| acquire:
    "i < length (workers s) \<Longrightarrow> workers s ! i = Waiting \<Longrightarrow> sema s = Some (Suc k) \<Longrightarrow>
     step s (s\<lparr>sema := Some k, workers := (workers s)[i := Running]\<rparr>)"
| leave:
    "i < length (workers s) \<Longrightarrow> workers s ! i = Running \<Longrightarrow>
     step s (s\<lparr>sema := map_option Suc (sema s), workers := (workers s)[i := Finished]\<rparr>)"

code_pred step .

inductive reachable :: "int \<Rightarrow> sched \<Rightarrow> bool" where
  init: "reachable n (init_sched n)"
| next_step: "reachable n s \<Longrightarrow> step s s' \<Longrightarrow> reachable n s'"

code_pred reachable .

definition running :: "sched \<Rightarrow> nat" where
  "running s = length (filter (\<lambda>p. p = Running) (workers s))"

subsection \<open>A sample installation\<close>

text \<open>
  For the examples: the targets directory \<open>/app/targets\<close> with the targets \<open>mrxsmb\<close>
  (holding a fetch script and the two downloaded files) and \<open>tcpip\<close>, and two archives
  with their documents; \<open>resolve\<close> without links, so that only \<open>..\<close> parts are
  resolved; an engine that fails with status 1 and the text \<open>boom\<close>; an analysis
  process that fails for the target \<open>mrxsmb\<close> and succeeds for the others.
\<close>

fun resolve_sample_step :: "path \<Rightarrow> string \<Rightarrow> path" where
  "resolve_sample_step acc c =
     (if c = ''..'' then (if acc = [''/''] then acc else butlast acc) else acc @ [c])"

definition resolve_sample :: "path \<Rightarrow> path" where
  "resolve_sample p = foldl resolve_sample_step [] p"

definition mrxsmb_dir :: path where
  "mrxsmb_dir = [''/'', ''app'', ''targets'', ''mrxsmb'']"

definition archive1 :: path where
  "archive1 = mrxsmb_dir @ [''archive'', ''ghidriffs_1'']"

definition archive2 :: path where
  "archive2 = [''/'', ''app'', ''targets'', ''tcpip'', ''archive'', ''ghidriffs_2'']"

definition fs_sample :: fs where
  "fs_sample =
     map_of
       [([''/''], Dir),
        ([''/'', ''app''], Dir),
        ([''/'', ''app'', ''targets''], Dir),
        (mrxsmb_dir, Dir),
        (mrxsmb_dir @ [''fetch_target.py''], File),
        (mrxsmb_dir @ [''old.mrxsmb.sys''], File),
        (mrxsmb_dir @ [''new.mrxsmb.sys''], File),
        (mrxsmb_dir @ [''archive''], Dir),
        (archive1, Dir),
        (archive1 @ [''sxs_html''], Dir),
        ([''/'', ''app'', ''targets'', ''tcpip''], Dir),
        ([''/'', ''app'', ''targets'', ''tcpip'', ''archive''], Dir),
        (archive2, Dir),
        (archive2 @ [''sxs_html''], Dir)]"

definition oenv_sample :: oenv where
  "oenv_sample =
     \<lparr>TARGETS_DIR = [''/'', ''app'', ''targets''],
      LLM_SCRIPT = [''/'', ''app'', ''utils'', ''llmanalyze.py''],
      resolve = resolve_sample,
      UID = 1000,
      GID = 1000,
      exec_module = (\<lambda>script f. (Inr True, f)),
      check_and_download = (\<lambda>script f. (Inr FFalse, f)),
      engine = (\<lambda>cmd f. (Inr (1, Text ''boom''), f)),
      llmanalyze = (\<lambda>cmd f. (if ''mrxsmb'' \<in> set cmd then 1 else 0, f))\<rparr>"

definition config_sample :: config where
  "config_sample =
     \<lparr>VERBOSE = False, LLM_VERBOSE = False, ANALYZE = True, LLM_TRIGGER_CMD = None,
      LLM_LEVEL_THRESHOLD = ''HIGH'', LLM_BACKEND = ''ollama'', LLM_MODEL = None\<rparr>"

definition ostate_sample :: ostate where
  "ostate_sample =
     \<lparr>fs = fs_sample, out = [], loaded = [], engine_runs = [], ghidriff_threads = [],
      analyze_queue = [(''mrxsmb'', archive1), (''tcpip'', archive2)], children = []\<rparr>"

definition sched_sample :: sched where
  "sched_sample = \<lparr>sema = Some 0, workers = [Running, Running, Waiting]\<rparr>"

text \<open>
  The invariant of the scheduler: with a bound, the counter of the semaphore and the
  number of running workers add up to the bound; without one there is no semaphore.
\<close>

definition sched_inv :: "int \<Rightarrow> sched \<Rightarrow> bool" where
  "sched_inv n s =
     (if 0 < n then (case sema s of None \<Rightarrow> False | Some k \<Rightarrow> k + running s = nat n)
      else sema s = None)"

section \<open>Properties of the severity comparison\<close>

lemma upper_char_idem: "upper_char (upper_char c) = upper_char c"
proof (cases "97 \<le> (of_char c :: nat) \<and> (of_char c :: nat) \<le> 122")
  case True
  then have "(of_char c :: nat) - 32 < 256" by arith
  then have "(of_char (char_of ((of_char c :: nat) - 32)) :: nat) = of_char c - 32"
    by simp
  moreover from True have "\<not> 97 \<le> (of_char c :: nat) - 32" by arith
  ultimately have "upper_char (char_of ((of_char c :: nat) - 32)) = char_of ((of_char c :: nat) - 32)"
    by (simp add: upper_char_def)
  moreover from True have "upper_char c = char_of ((of_char c :: nat) - 32)"
    by (simp add: upper_char_def)
  ultimately show ?thesis by simp
next
  case False
  then have "upper_char c = c" by (auto simp: upper_char_def)
  then show ?thesis by simp
qed

lemma upper_idem: "upper (upper s) = upper s"
  by (simp add: upper_def upper_char_idem)

lemma upper_token: "upper (token s) = token s"
  by (cases s) (simp_all add: upper_def upper_char_def)

lemma list_index_token: "list_index LEVELS (token s) = Inr (rank s)"
  by (cases s) (simp_all add: LEVELS_def)

lemma list_index_absent: "x \<notin> set xs \<Longrightarrow> list_index xs x = Inl ValueError"
  by (induction xs) auto

lemma list_index_present: "x \<in> set xs \<Longrightarrow> \<exists>i. list_index xs x = Inr i"
  by (induction xs) auto

lemma level_ge_tokens: "level_ge (token a) (token b) = (rank b \<le> rank a)"
  by (simp add: level_ge_def upper_token list_index_token)

lemma level_ge_unrecognised: "upper t \<notin> set LEVELS \<Longrightarrow> \<not> level_ge t x"
  by (simp add: level_ge_def list_index_absent)




text \<open>
  C10. Severity comparison is case-insensitive: for all strings \<open>a\<close> and \<open>b\<close>,
  \<open>level_ge a b\<close> equals \<open>level_ge\<close> applied to the upper-case forms of \<open>a\<close> and \<open>b\<close>;
  so a level that differs from a scale token only in letter case is treated as that
  token.
\<close>

theorem level_ge_case_insensitive:
  "level_ge a b = level_ge (upper a) (upper b)"
  by (simp add: level_ge_def upper_idem cong: sum.case_cong)

text \<open>
  C5 (as amended). For all levels \<open>a\<close> and \<open>b\<close> of the scale, \<open>level_ge a a\<close> holds and
  \<open>level_ge a b\<close> agrees with the total order \<open>NONE < LOW < MEDIUM < HIGH < CRITICAL\<close>;
  and for any token whose upper-case form is not in the scale, \<open>level_ge token x\<close> is
  false for every \<open>x\<close>.
\<close>

theorem level_ge_scale:
  "level_ge (token a) (token a) \<and>
   level_ge (token a) (token b) = (rank b \<le> rank a) \<and>
   (upper t \<notin> set LEVELS \<longrightarrow> \<not> level_ge t x)"
  by (simp add: level_ge_tokens level_ge_unrecognised)

theorem level_ge_scale_witness:
  "level_ge (token HIGH) (token HIGH) \<and>
   level_ge (token HIGH) (token CRITICAL) = (rank CRITICAL \<le> rank HIGH) \<and>
   upper ''bogus'' \<notin> set LEVELS \<and> \<not> level_ge ''bogus'' ''NONE''"
proof -
  have h: "upper ''bogus'' \<notin> set LEVELS" by code_simp
  with level_ge_scale [of HIGH CRITICAL "''bogus''" "''NONE''"] show ?thesis by simp
qed

text \<open>
  The token \<open>high\<close> is not one of the five tokens of the scale, and yet it compares as
  \<open>HIGH\<close>: the claim as first worded (any token not in the scale) fails there.
\<close>

theorem level_ge_lowercase_counterexample:
  "''high'' \<notin> set LEVELS \<and> level_ge ''high'' ''LOW''"
  by code_simp

section \<open>Properties of the defensive decoder\<close>

lemma robust_loop_wrapped:
  "wrapped loads k t v \<Longrightarrow> k < n \<Longrightarrow> \<forall>s. v \<noteq> JString s \<Longrightarrow>
   robust_loop loads n (JString t) = Inr v"
proof (induction k arbitrary: t n)
  case 0
  then obtain n' where n: "n = Suc n'" by (cases n) auto
  from 0 have "loads t = Inr v" by simp
  moreover from 0 have "robust_loop loads n' v = Inr v"
    by (cases n'; cases v) auto
  ultimately show ?case by (simp add: n)
next
  case (Suc k)
  then obtain n' where n: "n = Suc n'" by (cases n) auto
  from Suc.prems(1) obtain t' where t': "loads t = Inr (JString t')" "wrapped loads k t' v"
    by (auto split: sum.splits json.splits)
  from Suc.prems(2) n have "k < n'" by simp
  with Suc.IH t' Suc.prems(3) have "robust_loop loads n' (JString t') = Inr v" by blast
  with t' show ?case by (simp add: n)
qed

lemma robust_loop_too_deep:
  "wrapped loads k t v \<Longrightarrow> n \<le> k \<Longrightarrow> \<exists>s. robust_loop loads n (JString t) = Inr (JString s)"
proof (induction n arbitrary: k t)
  case 0
  then show ?case by simp
next
  case (Suc n)
  then obtain k' where k: "k = Suc k'" by (cases k) auto
  from Suc.prems(1) obtain t' where t': "loads t = Inr (JString t')" "wrapped loads k' t' v"
    by (auto simp: k split: sum.splits json.splits)
  from Suc.prems(2) k have "n \<le> k'" by simp
  with Suc.IH t' obtain s where "robust_loop loads n (JString t') = Inr (JString s)" by blast
  with t' show ?case by simp
qed

lemma robust_json_shallow:
  "wrapped loads k t (JObject m) \<Longrightarrow> k \<le> 2 \<Longrightarrow> robust_json loads t = Inr m"
  using robust_loop_wrapped [of loads k t "JObject m" 3]
  by (simp add: robust_json_def)

lemma robust_json_deep:
  "wrapped loads k t v \<Longrightarrow> 3 \<le> k \<Longrightarrow> robust_json loads t = Inl ValueError"
  using robust_loop_too_deep [of loads k t v 3]
  by (auto simp: robust_json_def)

lemma wrapped_reencode:
  "(\<And>u. loads (dumps u) = Inr u) \<Longrightarrow> wrapped loads k (reencode dumps k v) v"
  by (induction k) simp_all

lemma robust_json_reencode:
  "(\<And>u. loads (dumps u) = Inr u) \<Longrightarrow>
   robust_json loads (reencode dumps k (JObject m)) =
     (if k \<le> 2 then Inr m else Inl ValueError)"
  using wrapped_reencode [of loads dumps k "JObject m"]
  by (simp add: robust_json_shallow robust_json_deep)

lemma wrapped_sample:
  "wrapped loads_sample 0 text0 (JObject [])"
  "wrapped loads_sample 1 text1 (JObject [])"
  "wrapped loads_sample 2 text2 (JObject [])"
  "wrapped loads_sample 3 text3 (JObject [])"
  by (simp_all add: numeral_2_eq_2 numeral_3_eq_3 loads_sample_def text0_def text1_def
      text2_def text3_def dq_def bs_def)

text \<open>
  C1 (as amended). For any mapping whose JSON text is wrapped as a JSON string 0, 1 or
  2 times, decoding the resulting text yields the original mapping; for text wrapped 3
  or more times, decoding fails with the decoder's own error. The decoder is a total
  function that calls \<open>loads\<close> at most three times, so it never loops.
\<close>

theorem robust_json_bounded_unwrap:
  "wrapped loads k t (JObject m) \<Longrightarrow>
   robust_json loads t = (if k \<le> 2 then Inr m else Inl ValueError)"
  by (simp add: robust_json_shallow robust_json_deep)

theorem robust_json_bounded_unwrap_witness:
  "wrapped loads_sample 2 text2 (JObject []) \<and> robust_json loads_sample text2 = Inr []"
  using robust_json_bounded_unwrap [of loads_sample 2 text2 "[]"] wrapped_sample(3)
  by simp

text \<open>
  The text of the empty mapping wrapped three times is not decoded: three rounds of
  \<open>loads\<close> leave the string \<open>{}\<close>, which is not a mapping.
\<close>

theorem robust_json_three_wraps_counterexample:
  "wrapped loads_sample 3 text3 (JObject []) \<and>
   robust_json loads_sample text3 = Inl ValueError"
  using robust_json_deep [of loads_sample 3 text3 "JObject []"] wrapped_sample(4)
  by simp

section \<open>Properties of the trigger gate\<close>


lemma TriggerTool_exec_not_reached:
  "\<not> level_ge (evaluation_level ev) threshold \<Longrightarrow>
   TriggerTool_exec env cmd threshold target ev st = (Inr NotTriggered, st)"
  by (auto simp: TriggerTool_exec_def split: option.splits)







lemma evaluation_level_missing:
  "map_of ev ''level'' = None \<Longrightarrow> evaluation_level ev = ''NONE''"
  by (simp add: evaluation_level_def dict_get_def py_str_def)

lemma rank_le_NONE: "(rank thr \<le> rank NONE) = (thr = NONE)"
  by (cases thr) simp_all




text \<open>
  C3 (as amended). In the comparison of the evaluation severity against the configured
  threshold, a severity whose text in upper case is not a token of the scale never
  reaches the threshold, whatever the threshold is, and the gate reports the
  not-triggered result; a missing severity is read as \<open>NONE\<close> and reaches the
  threshold exactly when the threshold is \<open>NONE\<close>.
\<close>

theorem unrecognised_or_missing_severity:
  "(upper (evaluation_level ev) \<notin> set LEVELS \<longrightarrow>
      TriggerTool_exec env cmd threshold target ev st = (Inr NotTriggered, st)) \<and>
   (map_of ev ''level'' = None \<longrightarrow>
      level_ge (evaluation_level ev) (token thr) = (thr = NONE))"
proof (intro conjI impI)
  assume "upper (evaluation_level ev) \<notin> set LEVELS"
  then have "\<not> level_ge (evaluation_level ev) threshold"
    by (rule level_ge_unrecognised)
  then show "TriggerTool_exec env cmd threshold target ev st = (Inr NotTriggered, st)"
    by (rule TriggerTool_exec_not_reached)
next
  assume "map_of ev ''level'' = None"
  then have "evaluation_level ev = token NONE"
    by (simp add: evaluation_level_missing)
  then show "level_ge (evaluation_level ev) (token thr) = (thr = NONE)"
    by (simp only: level_ge_tokens rank_le_NONE)
qed

theorem unrecognised_or_missing_severity_witness:
  "upper (evaluation_level [(''level'', JString ''severe'')]) \<notin> set LEVELS \<and>
   TriggerTool_exec env_sample (Some ''notify'') ''NONE'' ''tgt''
     [(''level'', JString ''severe'')] state_sample = (Inr NotTriggered, state_sample) \<and>
   map_of ([] :: (string \<times> json) list) ''level'' = None \<and>
   level_ge (evaluation_level []) (token HIGH) = (HIGH = NONE)"
proof -
  have u: "upper (evaluation_level [(''level'', JString ''severe'')]) \<notin> set LEVELS"
    by code_simp
  from unrecognised_or_missing_severity [of "[(''level'', JString ''severe'')]" env_sample
      "Some ''notify''" "''NONE''" "''tgt''" state_sample]
    unrecognised_or_missing_severity [of "[]" env_sample None "''NONE''" "''tgt''"
      state_sample HIGH] u
  show ?thesis by simp
qed

text \<open>
  An evaluation with no \<open>level\<close> reaches the threshold \<open>NONE\<close>, and the configured
  action is started.
\<close>

theorem missing_severity_counterexample:
  "map_of ([] :: (string \<times> json) list) ''level'' = None \<and>
   level_ge (evaluation_level []) ''NONE'' \<and>
   TriggerTool_exec env_sample (Some ''notify'') ''NONE'' ''tgt'' [] state_sample =
     (Inr (Triggered 0 [] []),
      state_sample\<lparr>proc_log := [([''notify''], ''tgt N/A NONE'' @ [nl])]\<rparr>)"
  by code_simp

section \<open>Properties of the pipeline order\<close>






lemma llm_effect:
  "llm env msg st = (r, st') \<Longrightarrow>
   llm_log st' = llm_log st @ [(msg, r)] \<and> proc_log st' = proc_log st \<and>
   written st' = written st"
  by (auto simp: llm_def split: prod.splits)






lemma TriggerTool_exec_logs:
  "TriggerTool_exec env cmd thr tgt ev st = (r, st') \<Longrightarrow>
   llm_log st' = llm_log st \<and> written st' = written st"
  by (auto simp: TriggerTool_exec_def Let_def
      split: option.splits if_splits sum.splits prod.splits)











section \<open>Properties of the scheduler\<close>

lemma running_enter:
  "i < length ws \<Longrightarrow> ws ! i = Waiting \<Longrightarrow>
   length (filter (\<lambda>p. p = Running) (ws[i := Running])) =
     Suc (length (filter (\<lambda>p. p = Running) ws))"
proof (induction ws arbitrary: i)
  case Nil
  then show ?case by simp
next
  case (Cons w ws)
  then show ?case by (cases i) auto
qed

lemma running_leave:
  "i < length ws \<Longrightarrow> ws ! i = Running \<Longrightarrow>
   Suc (length (filter (\<lambda>p. p = Running) (ws[i := Finished]))) =
     length (filter (\<lambda>p. p = Running) ws)"
proof (induction ws arbitrary: i)
  case Nil
  then show ?case by simp
next
  case (Cons w ws)
  then show ?case by (cases i) auto
qed

lemma sched_inv_init: "sched_inv n (init_sched n)"
  by (simp add: sched_inv_def init_sched_def make_sema_def running_def)

lemma sched_inv_step: "step s s' \<Longrightarrow> sched_inv n s \<Longrightarrow> sched_inv n s'"
proof (induction rule: step.induct)
  case (start s)
  then show ?case
    by (auto simp: sched_inv_def submit_def running_def split: option.splits if_splits)
next
  case (enter_unbounded i s)
  then show ?case
    by (auto simp: sched_inv_def running_def split: option.splits if_splits)
next
  case (acquire i s k)
  then show ?case
    by (auto simp: sched_inv_def running_def running_enter split: option.splits if_splits)
next
  case (leave i s)
  from running_leave [OF leave(1) leave(2)] leave(3) show ?case
    by (auto simp: sched_inv_def running_def split: option.splits if_splits)
qed

lemma reachable_inv: "reachable n s \<Longrightarrow> sched_inv n s"
  by (induction rule: reachable.induct) (auto intro: sched_inv_init sched_inv_step)

lemma reachable_bound: "reachable n s \<Longrightarrow> 0 < n \<Longrightarrow> running s \<le> nat n"
  by (drule reachable_inv) (auto simp: sched_inv_def split: option.splits)

lemma reachable_submitted:
  "n \<le> 0 \<Longrightarrow> reachable n \<lparr>sema = None, workers = replicate k Waiting\<rparr>"
proof (induction k)
  case 0
  then show ?case using reachable.init [of n]
    by (simp add: init_sched_def make_sema_def)
next
  case (Suc k)
  from reachable.next_step [OF Suc.IH [OF Suc.prems] step.start]
  show ?case by (simp add: submit_def replicate_append_same)
qed

lemma enter_update:
  "j < k \<Longrightarrow>
   (replicate j Running @ replicate (k - j) Waiting)[j := Running] =
     replicate (Suc j) Running @ replicate (k - Suc j) Waiting"
proof -
  assume "j < k"
  then obtain m where m: "k - j = Suc m" "k - Suc j = m"
    by (cases "k - j") auto
  show ?thesis
    by (simp add: m list_update_append replicate_append_same)
qed

lemma reachable_entered:
  "n \<le> 0 \<Longrightarrow> j \<le> k \<Longrightarrow>
   reachable n \<lparr>sema = None, workers = replicate j Running @ replicate (k - j) Waiting\<rparr>"
proof (induction j)
  case 0
  then show ?case using reachable_submitted [of n k] by simp
next
  case (Suc j)
  then have r: "reachable n \<lparr>sema = None, workers = replicate j Running @ replicate (k - j) Waiting\<rparr>"
    and jk: "j < k" by simp_all
  have w: "(replicate j Running @ replicate (k - j) Waiting) ! j = Waiting"
    using jk by (simp add: nth_append)
  from reachable.next_step [OF r step.enter_unbounded [of j]] w jk
  have "reachable n (\<lparr>sema = None, workers = replicate j Running @ replicate (k - j) Waiting\<rparr>
          \<lparr>workers := (replicate j Running @ replicate (k - j) Waiting)[j := Running]\<rparr>)"
    by simp
  then show ?case by (simp add: enter_update [OF jk])
qed

lemma reachable_all_running:
  "n \<le> 0 \<Longrightarrow> reachable n \<lparr>sema = None, workers = replicate k Running\<rparr>"
  using reachable_entered [of n k k] by simp

lemma reachable_sample: "reachable 2 sched_sample"
proof -
  have 1: "reachable 2 \<lparr>sema = Some 2, workers = []\<rparr>"
    using reachable.init [of 2] by (simp add: init_sched_def make_sema_def)
  have 2: "reachable 2 \<lparr>sema = Some 2, workers = [Waiting]\<rparr>"
    using reachable.next_step [OF 1 step.start] by (simp add: submit_def)
  have 3: "reachable 2 \<lparr>sema = Some 2, workers = [Waiting, Waiting]\<rparr>"
    using reachable.next_step [OF 2 step.start] by (simp add: submit_def)
  have 4: "reachable 2 \<lparr>sema = Some 2, workers = [Waiting, Waiting, Waiting]\<rparr>"
    using reachable.next_step [OF 3 step.start] by (simp add: submit_def)
  have 5: "reachable 2 \<lparr>sema = Some 1, workers = [Running, Waiting, Waiting]\<rparr>"
    using reachable.next_step [OF 4 step.acquire [of 0 _ 1]] by simp
  have 6: "reachable 2 \<lparr>sema = Some 0, workers = [Running, Running, Waiting]\<rparr>"
    using reachable.next_step [OF 5 step.acquire [of 1 _ 0]] by simp
  then show ?thesis by (simp add: sched_sample_def)
qed

text \<open>
  C7. For every configured bound \<open>N > 0\<close>, in every state the scheduler can reach at
  most \<open>N\<close> workers are inside \<open>run_ghidriff_diff\<close>, where alone the diffing engine
  runs. Submitting a job is possible in every state and touches neither the semaphore
  nor the number of running workers: the bound acts where a worker starts its job. For
  \<open>N = 0\<close> (and for a negative argument, which is read as 0) there is no semaphore and
  any number of submitted jobs can be running at once.
\<close>

theorem concurrency_bound:
  "(0 < n \<and> reachable n s \<longrightarrow> running s \<le> nat n) \<and>
   (reachable n s \<longrightarrow> reachable n (submit s) \<and> sema (submit s) = sema s \<and>
      running (submit s) = running s) \<and>
   (n \<le> 0 \<longrightarrow> reachable n \<lparr>sema = None, workers = replicate k Running\<rparr>)"
proof (intro conjI impI)
  assume "0 < n \<and> reachable n s"
  then show "running s \<le> nat n" by (simp add: reachable_bound)
next
  assume "reachable n s"
  then show "reachable n (submit s)" by (rule reachable.next_step) (rule step.start)
next
  show "sema (submit s) = sema s" by (simp add: submit_def)
next
  show "running (submit s) = running s" by (simp add: submit_def running_def)
next
  assume "n \<le> 0"
  then show "reachable n \<lparr>sema = None, workers = replicate k Running\<rparr>"
    by (rule reachable_all_running)
qed

theorem concurrency_bound_witness:
  "(0::int) < 2 \<and> reachable 2 sched_sample \<and> running sched_sample \<le> nat 2 \<and>
   reachable 2 (submit sched_sample) \<and> (0::int) \<le> 0 \<and>
   reachable 0 \<lparr>sema = None, workers = replicate 3 Running\<rparr>"
  using concurrency_bound [of 2 sched_sample 3] concurrency_bound [of 0 sched_sample 3]
    reachable_sample
  by simp

section \<open>Properties of target resolution\<close>

lemma resolve_target_dir_outside:
  "\<not> prefix (TARGETS_DIR env) (target_path env name) \<Longrightarrow>
   resolve_target_dir env f name = Inl ValueError"
  by (simp add: resolve_target_dir_def Let_def)

lemma resolve_target_dir_inside:
  "resolve_target_dir env f name = Inr t \<Longrightarrow>
   t = target_path env name \<and> prefix (TARGETS_DIR env) t \<and> f t = Some Dir"
  by (auto simp: resolve_target_dir_def Let_def split: if_splits)

lemma loaded_log: "loaded (log msg st) = loaded st"
  by (simp add: log_def)

lemma loaded_dispatch: "loaded (dispatch t res st) = loaded st"
  by (auto simp: dispatch_def loaded_log split: fetch_result.splits)

lemma run_script_loaded:
  "loaded (snd (run_script env t st)) = loaded st \<or>
   loaded (snd (run_script env t st)) = loaded st @ [t @ [SCRIPT_NAME]]"
  by (auto simp: run_script_def Let_def loaded_log loaded_dispatch
      split: prod.splits sum.splits)

lemma load_and_run_loaded:
  "loaded (snd (load_and_run env name force st)) = loaded st \<or>
   (prefix (TARGETS_DIR env) (target_path env name) \<and>
    loaded (snd (load_and_run env name force st)) =
      loaded st @ [target_path env name @ [SCRIPT_NAME]])"
proof (cases "resolve_target_dir env (fs st) name")
  case (Inl e)
  then show ?thesis by (simp add: load_and_run_def)
next
  case (Inr t)
  from resolve_target_dir_inside [OF Inr]
  have t: "t = target_path env name" and p: "prefix (TARGETS_DIR env) t" by blast+
  show ?thesis
  proof (cases "force \<and> fs st (t @ [''version.log'']) = Some Dir")
    case True
    with Inr show ?thesis by (simp add: load_and_run_def Let_def loaded_log log_def)
  next
    case False
    let ?st = "if force \<and> fs (log (''[*] Fetch script for '' @ path_name t) st)
                            (t @ [''version.log'']) = Some File
               then (log (''[*] Fetch script for '' @ path_name t) st)
                      \<lparr>fs := (fs (log (''[*] Fetch script for '' @ path_name t) st))
                               (t @ [''version.log''] := None)\<rparr>
               else log (''[*] Fetch script for '' @ path_name t) st"
    have l: "loaded ?st = loaded st" by (simp add: loaded_log)
    from False Inr have
      "load_and_run env name force st = run_script env t ?st"
      by (auto simp: load_and_run_def Let_def log_def)
    with run_script_loaded [of env t ?st] l t p show ?thesis by auto
  qed
qed

text \<open>
  C9. For every target name whose resolved path does not lie under the targets
  directory, \<open>resolve_target_dir\<close> raises \<open>ValueError\<close> and \<open>load_and_run\<close> ends with
  that error and an unchanged state, no script loaded; and whatever the name,
  \<open>load_and_run\<close> loads no script or exactly one, the file \<open>fetch_target.py\<close> in the
  resolved target directory, which lies under the targets directory.
\<close>

theorem fetch_script_inside_targets:
  "(\<not> prefix (TARGETS_DIR env) (target_path env name) \<longrightarrow>
      resolve_target_dir env (fs st) name = Inl ValueError \<and>
      load_and_run env name force st = (Inl ValueError, st)) \<and>
   (loaded (snd (load_and_run env name force st)) = loaded st \<or>
    (prefix (TARGETS_DIR env) (target_path env name) \<and>
     loaded (snd (load_and_run env name force st)) =
       loaded st @ [target_path env name @ [SCRIPT_NAME]]))"
proof (intro conjI impI)
  assume a: "\<not> prefix (TARGETS_DIR env) (target_path env name)"
  then show "resolve_target_dir env (fs st) name = Inl ValueError"
    by (rule resolve_target_dir_outside)
  from a show "load_and_run env name force st = (Inl ValueError, st)"
    by (simp add: load_and_run_def resolve_target_dir_outside)
next
  show "loaded (snd (load_and_run env name force st)) = loaded st \<or>
    (prefix (TARGETS_DIR env) (target_path env name) \<and>
     loaded (snd (load_and_run env name force st)) =
       loaded st @ [target_path env name @ [SCRIPT_NAME]])"
    by (rule load_and_run_loaded)
qed

lemma target_path_sample: "target_path oenv_sample ''../../etc'' = [''/'', ''etc'']"
  by (simp add: target_path_def oenv_sample_def Path_def is_absolute_def joinpath_def
      resolve_sample_def)

theorem fetch_script_inside_targets_witness:
  "\<not> prefix (TARGETS_DIR oenv_sample) (target_path oenv_sample ''../../etc'') \<and>
   resolve_target_dir oenv_sample (fs ostate_sample) ''../../etc'' = Inl ValueError \<and>
   load_and_run oenv_sample ''../../etc'' False ostate_sample = (Inl ValueError, ostate_sample) \<and>
   prefix (TARGETS_DIR oenv_sample) (target_path oenv_sample ''mrxsmb'') \<and>
   loaded (snd (load_and_run oenv_sample ''mrxsmb'' False ostate_sample)) =
     [[''/'', ''app'', ''targets'', ''mrxsmb'', ''fetch_target.py'']]"
proof -
  have p: "\<not> prefix (TARGETS_DIR oenv_sample) (target_path oenv_sample ''../../etc'')"
    by (simp add: target_path_sample) (simp add: oenv_sample_def)
  have q: "prefix (TARGETS_DIR oenv_sample) (target_path oenv_sample ''mrxsmb'')"
    by code_simp
  have l: "loaded (snd (load_and_run oenv_sample ''mrxsmb'' False ostate_sample)) =
     [[''/'', ''app'', ''targets'', ''mrxsmb'', ''fetch_target.py'']]"
    by code_simp
  from fetch_script_inside_targets [of oenv_sample "''../../etc''" ostate_sample False] p q l
  show ?thesis by simp
qed

section \<open>Properties of a failed diff job\<close>

lemma mkdir_p_dir: "mkdir_p f p = Inr f1 \<Longrightarrow> p \<noteq> [] \<Longrightarrow> f1 p = Some Dir"
  by (auto simp: mkdir_p_def split: if_splits)

lemma move_keeps_parent:
  assumes m: "move f src (d @ [x]) = Inr f'" and d: "f d = Some Dir" and n: "d \<noteq> []"
  shows "f' d = Some Dir"
proof -
  let ?rd = "if f (d @ [x]) = Some Dir then (d @ [x]) @ [path_name src] else d @ [x]"
  have pre: "prefix d ?rd" by simp
  have np: "\<not> prefix ?rd d" by (auto simp: prefix_def)
  have ne: "d \<noteq> ?rd" by auto
  from m obtain kind where k: "f src = Some kind"
    by (auto simp: move_def Let_def split: option.splits)
  show ?thesis
  proof (cases "src = d @ [x]")
    case True
    with m k d show ?thesis by (simp add: move_def Let_def)
  next
    case False
    show ?thesis
    proof (cases kind)
      case File
      with k d have "src \<noteq> d" by auto
      with m k File False ne d show ?thesis
        by (auto simp: move_def Let_def split: if_splits)
    next
      case Dir
      from m k Dir False have ns: "\<not> prefix src ?rd"
        by (auto simp: move_def Let_def split: if_splits)
      with pre have nsd: "\<not> prefix src d"
        using prefix_order.trans by blast
      from m k Dir False have
        "f' = (\<lambda>q. if prefix ?rd q then f (src @ drop (length ?rd) q)
                   else if prefix src q then None
                   else if q \<noteq> [] \<and> prefix q ?rd then Some Dir
                   else f q)"
        by (auto simp: move_def Let_def split: if_splits)
      with np nsd pre n show ?thesis by simp
    qed
  qed
qed

lemma stage_inputs_workdir:
  assumes "stage_inputs f t_dir old_f new_f = Inr f3"
  shows "f3 (t_dir @ [''ghidriffs'']) = Some Dir"
proof -
  from assms obtain f1 f2 where
    1: "mkdir_p f (t_dir @ [''ghidriffs'']) = Inr f1" and
    2: "move f1 old_f ((t_dir @ [''ghidriffs'']) @ [path_name old_f]) = Inr f2" and
    3: "move f2 new_f ((t_dir @ [''ghidriffs'']) @ [path_name new_f]) = Inr f3"
    by (auto simp: stage_inputs_def Let_def split: sum.splits)
  from mkdir_p_dir [OF 1] have "f1 (t_dir @ [''ghidriffs'']) = Some Dir" by simp
  from move_keeps_parent [OF 2 this] have "f2 (t_dir @ [''ghidriffs'']) = Some Dir" by simp
  from move_keeps_parent [OF 3 this] show ?thesis by simp
qed

lemma run_ghidriff_diff_failed:
  assumes s: "stage_inputs (fs st) t_dir old_f new_f = Inr f3"
    and e: "engine env (docker_cmd env t_dir old_f new_f) f3 = (Inr (code, err), f4)"
    and c: "code \<noteq> 0"
  shows "run_ghidriff_diff cfg env ts (t_dir, old_f, new_f) st =
           (Inr (),
            st\<lparr>fs := f4,
               out := out st @ [''[*] Ghidriff ('' @ path_name t_dir @ '')'',
                                ''[!] Ghidriff failed ('' @ path_name t_dir @ '')'']
                        @ (if VERBOSE cfg then []
                           else (case err of Text t \<Rightarrow> [t] | _ \<Rightarrow> [])),
               engine_runs := engine_runs st @ [docker_cmd env t_dir old_f new_f]\<rparr>)"
  using s e c
  by (cases err) (simp_all add: run_ghidriff_diff_def Let_def log_def)

text \<open>
  C8. For every diff job whose inputs were staged and whose engine ends with a status
  other than 0: the job returns without an exception, the failure is in the log, the
  working directory exists when the engine starts and the file system is left as the
  engine left it (nothing is moved to the archive), the analysis queue and the list of
  threads are unchanged, the engine was run once, and the jobs that follow are run
  from the resulting state.
\<close>

theorem failed_diff_job:
  "stage_inputs (fs st) t_dir old_f new_f = Inr f3 \<Longrightarrow>
   engine env (docker_cmd env t_dir old_f new_f) f3 = (Inr (code, err), f4) \<Longrightarrow>
   code \<noteq> 0 \<Longrightarrow>
   (\<exists>st'. run_ghidriff_diff cfg env ts (t_dir, old_f, new_f) st = (Inr (), st') \<and>
      (''[!] Ghidriff failed ('' @ path_name t_dir @ '')'') \<in> set (out st') \<and>
      f3 (t_dir @ [''ghidriffs'']) = Some Dir \<and> fs st' = f4 \<and>
      analyze_queue st' = analyze_queue st \<and>
      ghidriff_threads st' = ghidriff_threads st \<and>
      engine_runs st' = engine_runs st @ [docker_cmd env t_dir old_f new_f] \<and>
      run_jobs cfg env ((ts, (t_dir, old_f, new_f)) # rest) st = run_jobs cfg env rest st')"
proof -
  assume s: "stage_inputs (fs st) t_dir old_f new_f = Inr f3"
    and e: "engine env (docker_cmd env t_dir old_f new_f) f3 = (Inr (code, err), f4)"
    and c: "code \<noteq> 0"
  note r = run_ghidriff_diff_failed [OF s e c, of cfg ts]
  from stage_inputs_workdir [OF s] have w: "f3 (t_dir @ [''ghidriffs'']) = Some Dir" .
  show ?thesis
    by (rule exI, rule conjI, rule r) (simp add: w r)
qed

theorem failed_diff_job_witness:
  "\<exists>f3 f4 st'.
     stage_inputs (fs ostate_sample) mrxsmb_dir (mrxsmb_dir @ [''old.mrxsmb.sys''])
       (mrxsmb_dir @ [''new.mrxsmb.sys'']) = Inr f3 \<and>
     engine oenv_sample
       (docker_cmd oenv_sample mrxsmb_dir (mrxsmb_dir @ [''old.mrxsmb.sys''])
          (mrxsmb_dir @ [''new.mrxsmb.sys''])) f3 = (Inr (1, Text ''boom''), f4) \<and>
     (1::int) \<noteq> 0 \<and>
     run_ghidriff_diff config_sample oenv_sample ''2025-01-01_000000''
       (mrxsmb_dir, mrxsmb_dir @ [''old.mrxsmb.sys''], mrxsmb_dir @ [''new.mrxsmb.sys''])
       ostate_sample = (Inr (), st') \<and>
     ''[!] Ghidriff failed (mrxsmb)'' \<in> set (out st') \<and>
     f3 (mrxsmb_dir @ [''ghidriffs'']) = Some Dir \<and> fs st' = f4 \<and>
     analyze_queue st' = analyze_queue ostate_sample \<and>
     engine_runs st' =
       [docker_cmd oenv_sample mrxsmb_dir (mrxsmb_dir @ [''old.mrxsmb.sys''])
          (mrxsmb_dir @ [''new.mrxsmb.sys''])]"
proof -
  let ?old = "mrxsmb_dir @ [''old.mrxsmb.sys'']"
  let ?new = "mrxsmb_dir @ [''new.mrxsmb.sys'']"
  have "case stage_inputs (fs ostate_sample) mrxsmb_dir ?old ?new of
          Inl e \<Rightarrow> False | Inr f \<Rightarrow> True"
    by code_simp
  then obtain f3 where s: "stage_inputs (fs ostate_sample) mrxsmb_dir ?old ?new = Inr f3"
    by (auto split: sum.splits)
  have e: "engine oenv_sample (docker_cmd oenv_sample mrxsmb_dir ?old ?new) f3 =
             (Inr (1, Text ''boom''), f3)"
    by (simp add: oenv_sample_def)
  have n: "path_name mrxsmb_dir = ''mrxsmb''"
    by (simp add: path_name_def mrxsmb_dir_def)
  have r: "engine_runs ostate_sample = []"
    by (simp add: ostate_sample_def)
  from failed_diff_job [OF s e, of config_sample "''2025-01-01_000000''" "[]"] s e n r
  show ?thesis by auto
qed

section \<open>Properties of the analysis of the queue\<close>

lemma AnalyzeEachDoc_exec_written:
  "written (snd (AnalyzeEachDoc_exec env pr docs st)) = written st"
proof (induction docs arbitrary: st)
  case Nil
  then show ?case by simp
next
  case (Cons d ds)
  show ?case
  proof (cases "llm env (chat pr (markdown d)) st")
    case (Pair r st1)
    from llm_effect [OF Pair] have w: "written st1 = written st" by simp
    show ?thesis
    proof (cases r)
      case (Inl e)
      with Pair w show ?thesis by simp
    next
      case (Inr a)
      with Pair w Cons.IH [of st1] show ?thesis
        by (auto split: prod.splits sum.splits)
    qed
  qed
qed

lemma AnalyzeEachDoc_written: "written (snd (AnalyzeEachDoc env sh st)) = written st"
  using AnalyzeEachDoc_exec_written [of env _ _ st]
  by (auto simp: AnalyzeEachDoc_def split: option.splits sum.splits prod.splits)
    (metis snd_conv)+

lemma llm_written: "written (snd (llm env msg st)) = written st"
  by (cases "llm env msg st") (auto dest: llm_effect)

lemma FinalReport_written: "written (snd (FinalReport env sh st)) = written st"
  using llm_written [of env _ st]
  by (auto simp: FinalReport_def FinalReport_exec_def split: option.splits sum.splits prod.splits)
    (metis snd_conv)+

lemma EvaluateFinal_written: "written (snd (EvaluateFinal env sh st)) = written st"
  using llm_written [of env _ st]
  by (auto simp: EvaluateFinal_def EvaluateFinal_exec_def
      split: option.splits sum.splits prod.splits)
    (metis snd_conv)+

lemma TriggerTool_written: "written (snd (TriggerTool env cmd thr tgt sh st)) = written st"
  by (auto simp: TriggerTool_def Let_def split: prod.splits sum.splits
      dest: TriggerTool_exec_logs)

lemma flow_run_written: "written (snd (flow_run env inp cmd thr tgt sh st)) = written st"
proof (cases "LoadMarkdown env inp sh")
  case (Inl e)
  then show ?thesis by (simp add: flow_run_def)
next
  case (Inr sh1)
  obtain r1 st1 where a: "AnalyzeEachDoc env sh1 st = (r1, st1)" by force
  with AnalyzeEachDoc_written [of env sh1 st] have w1: "written st1 = written st" by simp
  show ?thesis
  proof (cases r1)
    case (Inl e)
    with Inr a w1 show ?thesis by (simp add: flow_run_def)
  next
    case sh2: (Inr sh2)
    obtain r2 st2 where b: "FinalReport env sh2 st1 = (r2, st2)" by force
    with FinalReport_written [of env sh2 st1] w1 have w2: "written st2 = written st" by simp
    show ?thesis
    proof (cases r2)
      case (Inl e)
      with Inr a sh2 b w2 show ?thesis by (simp add: flow_run_def)
    next
      case sh3: (Inr sh3)
      obtain r3 st3 where c: "EvaluateFinal env sh3 st2 = (r3, st3)" by force
      with EvaluateFinal_written [of env sh3 st2] w2 have w3: "written st3 = written st"
        by simp
      show ?thesis
      proof (cases r3)
        case (Inl e)
        with Inr a sh2 b sh3 c w3 show ?thesis by (simp add: flow_run_def)
      next
        case sh4: (Inr sh4)
        with Inr a sh2 b sh3 c w3 TriggerTool_written [of env cmd thr tgt sh4 st3]
        show ?thesis by (simp add: flow_run_def)
      qed
    qed
  qed
qed

lemma main_error_writes_nothing:
  "main env a st = (Inl e, st') \<Longrightarrow> written st' = written st"
proof -
  assume m: "main env a st = (Inl e, st')"
  show ?thesis
  proof (cases "load_prompts env")
    case (Inl e')
    with m show ?thesis by (simp add: main_def)
  next
    case (Inr prompts)
    let ?sh = "\<lparr>sh_prompts = prompts, sh_docs = None, sh_doc_analyses = None,
                 sh_final = None, sh_evaluation = None, sh_trigger_result = None\<rparr>"
    let ?r = "flow_run env (arg_input a) (arg_trigger_cmd a) (arg_level_threshold a)
                (arg_target_name a) ?sh st"
    obtain r st1 where f: "?r = (r, st1)" by force
    with flow_run_written [of env "arg_input a" "arg_trigger_cmd a" "arg_level_threshold a"
        "arg_target_name a" ?sh st]
    have w: "written st1 = written st" by simp
    from m Inr f w show ?thesis
      by (auto simp: main_def Let_def split: sum.splits option.splits)
  qed
qed

lemma main_error_status: "fst (main env a st) = Inl e \<Longrightarrow> exit_status (fst (main env a st)) = 1"
  by (simp add: exit_status_def)

lemma run_llmanalyze_missing_documents:
  "fs st (a @ [''sxs_html'']) \<noteq> Some Dir \<Longrightarrow>
   run_llmanalyze cfg env t a st =
     (Inr (), log (''[!] '' @ path_str (a @ [''sxs_html'']) @ '' missing - skipping LLM analysis'') st)"
  by (simp add: run_llmanalyze_def Let_def)

lemma run_llmanalyze_failed:
  "fs st (a @ [''sxs_html'']) = Some Dir \<Longrightarrow>
   llmanalyze env (llm_cmd cfg env t a) (fs st) = (status, f1) \<Longrightarrow> status \<noteq> 0 \<Longrightarrow>
   run_llmanalyze cfg env t a st =
     (Inl CalledProcessError,
      st\<lparr>fs := f1, out := out st @ [''[*] Starting LLM analysis of '' @ t],
         children := children st @ [llm_cmd cfg env t a]\<rparr>)"
  by (simp add: run_llmanalyze_def Let_def log_def)

lemma analyze_loop_raises:
  "run_llmanalyze cfg env t a st = (Inl e, st') \<Longrightarrow>
   analyze_loop cfg env ((t, a) # q) st = (Inl e, st')"
  by simp

text \<open>
  C2. A stage error in the analysis of one archive writes no report for it
  (\<open>main_error_writes_nothing\<close>) and ends its process with status 1, and an archive
  without its documents directory is skipped (\<open>run_llmanalyze_missing_documents\<close>).
  The other queued archives are not protected from a failed run, though: on the sample
  installation the queue holds two archives with their documents and the analysis
  process fails for the first; \<open>CalledProcessError\<close> leaves the loop and the second
  archive is never analysed.
\<close>

theorem analysis_failure_ends_queue:
  "analyze_queue ostate_sample = [(''mrxsmb'', archive1), (''tcpip'', archive2)] \<and>
   fs ostate_sample (archive1 @ [''sxs_html'']) = Some Dir \<and>
   fs ostate_sample (archive2 @ [''sxs_html'']) = Some Dir \<and>
   fst (llmanalyze oenv_sample (llm_cmd config_sample oenv_sample ''mrxsmb'' archive1)
          fs_sample) = 1 \<and>
   fst (analyze_all config_sample oenv_sample ostate_sample) = Inl CalledProcessError \<and>
   children (snd (analyze_all config_sample oenv_sample ostate_sample)) =
     [llm_cmd config_sample oenv_sample ''mrxsmb'' archive1]"
  by code_simp

end
